theory Spec2Isabelle
  imports Main "HOL-Library.Word" "HOL-Library.Multiset"
begin

section \<open>Identity resolution: \<open>excel_clerk_processor\<close>\<close>

subsection \<open>Strings and bytes\<close>

text \<open>
  A Go string is a sequence of bytes; \<open>string\<close> (a list of 8-bit characters) models it.
  The conversion \<^verbatim>\<open>[]byte(s)\<close> yields the bytes of the string and \<^verbatim>\<open>string(bs)\<close>
  builds a string from bytes.
\<close>

definition bytes_of_string :: "string \<Rightarrow> nat list" where
  "bytes_of_string s = map of_char s"

definition string_of_bytes :: "nat list \<Rightarrow> string" where
  "string_of_bytes bs = map char_of bs"

text \<open>
  \<^verbatim>\<open>func stringTrim(s string) string { return string([]byte(s)) }\<close>
\<close>

definition stringTrim :: "string \<Rightarrow> string" where
  "stringTrim s = string_of_bytes (bytes_of_string s)"

text \<open>
  What "whitespace-trimmed" means in the specification: leading and trailing white space
  removed (the white space of Go's \<^verbatim>\<open>strings.TrimSpace\<close> on ASCII input: space, tab, newline,
  vertical tab, form feed, carriage return). This definition follows the specification's
  words, not the source; it is only compared with the source's \<open>stringTrim\<close>.
\<close>

definition is_space :: "char \<Rightarrow> bool" where
  "is_space c = (c \<in> set [CHR '' '', CHR 0x09, CHR 0x0A, CHR 0x0B, CHR 0x0C, CHR 0x0D])"

definition spec_trimmed :: "string \<Rightarrow> string" where
  "spec_trimmed s = rev (dropWhile is_space (rev (dropWhile is_space s)))"

subsection \<open>The identity service and \<open>FetchUserName\<close>\<close>

text \<open>
  \<^verbatim>\<open>type ClerkUser struct { FirstName, LastName, Username string;
       EmailAddresses []struct{ EmailAddress string } }\<close>
\<close>

record email_entry =
  EmailAddress :: string

record ClerkUser =
  FirstName :: string
  LastName :: string
  Username :: string
  EmailAddresses :: "email_entry list"

text \<open>
  Every error return of the Go code is a value of this type. The migration tool's
  \<open>fmt.Errorf\<close> messages carry the offending text.
\<close>

datatype error =
    RequestError            \<comment> \<open>\<open>http.NewRequest\<close> failed\<close>
  | TransportError          \<comment> \<open>\<open>client.Do\<close> failed (timeout, connection)\<close>
  | BadStatus int           \<comment> \<open>"clerk API returned status %d"\<close>
  | MalformedBody           \<comment> \<open>\<open>json.Unmarshal\<close> failed\<close>
  | OpenFileError           \<comment> \<open>\<open>excelize.OpenFile\<close> failed\<close>
  | GetRowsError            \<comment> \<open>\<open>f.GetRows\<close> failed\<close>
  | SaveError               \<comment> \<open>\<open>f.SaveAs\<close> failed\<close>
  | IndexOutOfRange         \<comment> \<open>run-time panic: index out of range\<close>
  | ChanSizeOutOfRange      \<comment> \<open>run-time panic: makechan: size out of range\<close>
  | OutOfMemory             \<comment> \<open>fatal error of the runtime: out of memory\<close>
  | BlockedForever          \<comment> \<open>a channel send that no goroutine can ever receive\<close>
  | NotEnoughSegments string \<comment> \<open>"path does not have enough segments: %s"\<close>
  | EmptyPath               \<comment> \<open>"empty path"\<close>
  | NotAValidDate string    \<comment> \<open>"folder name is not a valid date: %s"\<close>
  | ConfigParseError        \<comment> \<open>"failed to parse config file"\<close>
  | CutoffParseError        \<comment> \<open>"failed to parse cutoff date"\<close>
  | NoSuchKey               \<comment> \<open>\<open>HeadObject\<close>: the key is absent\<close>
  | HeadError               \<comment> \<open>\<open>HeadObject\<close> failed for another reason\<close>
  | ReaderError             \<comment> \<open>\<open>NewReader\<close> failed\<close>
  | UploadError             \<comment> \<open>\<open>UploadWithContext\<close> failed\<close>

text \<open>
  What the HTTP exchange and the JSON decoder of Go's standard library deliver for one
  request: the request cannot be built, the transport fails, or a response arrives with a
  status code and a body that \<open>json.Unmarshal\<close> either rejects (\<open>None\<close>) or decodes into a
  \<open>ClerkUser\<close>. The identity service is a function from the identifier and the credential
  to such an outcome.
\<close>

datatype http_outcome =
    NewRequestFails
  | DoFails
  | Response (status: int) (decoded: "ClerkUser option")

type_synonym identity_service = "string \<Rightarrow> string \<Rightarrow> http_outcome"

definition StatusOK :: int where
  "StatusOK = 200"

definition fullName :: "ClerkUser \<Rightarrow> string" where
  "fullName user = FirstName user @ '' '' @ LastName user"   \<comment> \<open>\<open>fmt.Sprintf("%s %s", ...)\<close>\<close>

definition FetchUserName :: "identity_service \<Rightarrow> string \<Rightarrow> string \<Rightarrow> error + string" where
  "FetchUserName service userID secretKey =
     (case service userID secretKey of
        NewRequestFails \<Rightarrow> Inl RequestError
      | DoFails \<Rightarrow> Inl TransportError
      | Response code body \<Rightarrow>
          if code \<noteq> StatusOK then Inl (BadStatus code)
          else (case body of
                  None \<Rightarrow> Inl MalformedBody
                | Some user \<Rightarrow>
                    (let trimmed = stringTrim (fullName user) in
                     if trimmed \<noteq> [] then Inr trimmed
                     else if length (EmailAddresses user) > 0
                       then Inr (EmailAddress (hd (EmailAddresses user)))
                     else if Username user \<noteq> [] then Inr (Username user)
                     else Inr (''User '' @ userID))))"

subsection \<open>\<open>ProcessExcel\<close>\<close>

text \<open>
  \<^verbatim>\<open>type Entry struct { Row int; UserID string }\<close> and
  \<^verbatim>\<open>type Result struct { Row int; UserName string }\<close>. Rows are slice positions plus one,
  hence natural numbers. The row field of a result is called \<open>ResultRow\<close> because a
  field name is a constant of the theory.
\<close>

record Entry =
  Row :: nat
  UserID :: string

record Result =
  ResultRow :: nat
  UserName :: string

text \<open>
  The constants of package \<open>models\<close> that \<open>ProcessExcel\<close> reads are parameters. The
  two single-file variants of the program fix them as \<open>userIDsColumnIndex = 5\<close> and
  \<open>batchSize = 10\<close>.
\<close>

record constants =
  USERIDs_COLOUMN :: int
  BATCH_SIZE :: nat

definition single_file_constants :: constants where
  "single_file_constants = \<lparr>USERIDs_COLOUMN = 5, BATCH_SIZE = 10\<rparr>"

text \<open>Reading a slice at an index panics outside the slice.\<close>

definition go_index :: "'a list \<Rightarrow> int \<Rightarrow> error + 'a" where
  "go_index xs i = (if 0 \<le> i \<and> i < int (length xs) then Inr (xs ! nat i) else Inl IndexOutOfRange)"

text \<open>
  The loop \<^verbatim>\<open>for r := 1; r < len(rows); r++\<close>: \<open>collect_rows col r rest\<close> is the loop
  from position \<open>r\<close> on, with \<open>rest\<close> the rows from that position.
\<close>

fun collect_rows :: "int \<Rightarrow> nat \<Rightarrow> string list list \<Rightarrow> error + Entry list" where
  "collect_rows col r [] = Inr []"
| "collect_rows col r (row # rest) =
     (if int (length row) \<ge> col then
        (case go_index row (col - 1) of
           Inl e \<Rightarrow> Inl e
         | Inr cell \<Rightarrow>
             (let uid = stringTrim cell in
              case collect_rows col (r + 1) rest of
                Inl e \<Rightarrow> Inl e
              | Inr entries \<Rightarrow>
                  if uid \<noteq> [] then Inr (\<lparr>Row = r + 1, UserID = uid\<rparr> # entries)
                  else Inr entries))
      else collect_rows col (r + 1) rest)"

definition collect_entries :: "int \<Rightarrow> string list list \<Rightarrow> error + Entry list" where
  "collect_entries col rows = collect_rows col 1 (drop 1 rows)"

text \<open>The body of the goroutine started for one entry.\<close>

definition placeholder :: "string \<Rightarrow> string" where
  "placeholder uid = ''Unknown User ('' @ uid @ '')''"

definition fetch_entry :: "identity_service \<Rightarrow> string \<Rightarrow> Entry \<Rightarrow> Result" where
  "fetch_entry service secretKey e =
     (case FetchUserName service (UserID e) secretKey of
        Inl err \<Rightarrow> \<lparr>ResultRow = Row e, UserName = placeholder (UserID e)\<rparr>
      | Inr name \<Rightarrow> \<lparr>ResultRow = Row e, UserName = name\<rparr>)"

text \<open>
  The order in which the goroutines send their results. The main goroutine puts a token
  into \<open>sem\<close> (capacity \<open>n\<close>) before it starts the goroutine of the next entry, and a
  goroutine takes a token out after it has sent its result. So the goroutines that have
  been started and have not sent yet belong to the first \<open>n\<close> entries that have not sent
  yet, and any of these can be the next to send. The scheduler is a list of choices:
  choice \<open>k\<close> selects position \<open>k mod min n (remaining entries)\<close>; when the choices are
  used up the remaining goroutines send in the order of their start. With \<open>n = 0\<close> no
  goroutine is ever started.
\<close>

function completion_order :: "nat \<Rightarrow> nat list \<Rightarrow> 'a list \<Rightarrow> 'a list" where
  "completion_order n ks [] = []"
| "completion_order n [] (x # xs) = (if n = 0 then [] else x # xs)"
| "completion_order n (k # ks) (x # xs) =
     (if n = 0 then []
      else (let i = k mod (min n (Suc (length xs)))
            in ((x # xs) ! i) # completion_order n ks (take i (x # xs) @ drop (Suc i) (x # xs))))"
  by pat_completeness auto
termination
proof (relation "measure (\<lambda>(n, ks, xs). length xs)")
  fix n k :: nat and ks :: "nat list" and x :: 'a and xs :: "'a list" and i :: nat
  assume "n \<noteq> 0" and i: "i = k mod min n (Suc (length xs))"
  then have "0 < min n (Suc (length xs))" by simp
  then have "i < min n (Suc (length xs))" unfolding i by (rule mod_less_divisor)
  then have "i < Suc (length xs)" by simp
  then show "((n, ks, take i (x # xs) @ drop (Suc i) (x # xs)), n, k # ks, x # xs)
      \<in> measure (\<lambda>(n, ks, xs). length xs)"
    by (simp add: min_def)
qed simp

text \<open>
  Go's \<^verbatim>\<open>filepath.Ext\<close> (separator \<open>/\<close>): the suffix from the last dot of the last path
  element, empty when there is none. \<open>ext_scan\<close> walks the path from its end.
\<close>

fun ext_scan :: "string \<Rightarrow> string \<Rightarrow> string" where
  "ext_scan [] acc = []"
| "ext_scan (c # cs) acc =
     (if c = CHR ''/'' then []
      else if c = CHR ''.'' then c # acc
      else ext_scan cs (c # acc))"

definition filepath_Ext :: "string \<Rightarrow> string" where
  "filepath_Ext path = ext_scan (rev path) []"

text \<open>
  The spreadsheet library: what opening the file and reading the rows of its first sheet
  deliver, and whether saving under a path succeeds. The cells that \<open>SetCellValue\<close> is
  asked to set are recorded in call order; a later call for the same cell overrides an
  earlier one.
\<close>

datatype excel_file =
    OpenFails
  | GetRowsFails
  | Sheet "string list list"

record excel_env =
  open_file :: "string \<Rightarrow> excel_file"
  save_fails :: "string \<Rightarrow> bool"

type_synonym cell_write = "(nat \<times> nat) \<times> string"   \<comment> \<open>(column, row), value\<close>

record saved_file =
  out_path :: string
  writes :: "cell_write list"

definition cell_value :: "cell_write list \<Rightarrow> nat \<times> nat \<Rightarrow> string option" where
  "cell_value ws = map_of (rev ws)"

definition result_write :: "nat \<Rightarrow> Result \<Rightarrow> cell_write" where
  "result_write column res = ((column, ResultRow res), UserName res)"

text \<open>
  \<^verbatim>\<open>ext := filepath.Ext(filePath); out := filePath[:len(filePath)-len(ext)] + "_updated" + ext\<close>
\<close>

definition updated_path :: "string \<Rightarrow> string" where
  "updated_path filePath =
     (let ext = filepath_Ext filePath
      in take (length filePath - length ext) filePath @ ''_updated'' @ ext)"

definition ProcessExcel ::
  "constants \<Rightarrow> excel_env \<Rightarrow> identity_service \<Rightarrow> nat list \<Rightarrow> string \<Rightarrow> string \<Rightarrow> error + saved_file" where
  "ProcessExcel consts env service sched filePath secretKey =
     (case open_file env filePath of
        OpenFails \<Rightarrow> Inl OpenFileError
      | GetRowsFails \<Rightarrow> Inl GetRowsError
      | Sheet rows \<Rightarrow>
          (case collect_entries (USERIDs_COLOUMN consts) rows of
             Inl e \<Rightarrow> Inl e
           | Inr entries \<Rightarrow>
               (case go_index rows 0 of
                  Inl e \<Rightarrow> Inl e
                | Inr header \<Rightarrow>
                    (let column = length header + 1;
                         head_write = ((column, 1), ''User Name'')
                     in if BATCH_SIZE consts = 0 \<and> entries \<noteq> [] then Inl BlockedForever
                        else
                          (let results = map (fetch_entry service secretKey)
                                           (completion_order (BATCH_SIZE consts) sched entries);
                               ws = head_write # map (result_write column) results;
                               out = updated_path filePath
                           in if save_fails env out then Inl SaveError
                              else Inr \<lparr>out_path = out, writes = ws\<rparr>)))))"

text \<open>The single-file variant \<open>processExcel\<close> is the same function with its own constants.\<close>

definition processExcel ::
  "excel_env \<Rightarrow> identity_service \<Rightarrow> nat list \<Rightarrow> string \<Rightarrow> string \<Rightarrow> error + saved_file" where
  "processExcel = ProcessExcel single_file_constants"

subsection \<open>The pool of \<open>ProcessExcel\<close>, step by step\<close>

text \<open>
  The goroutines of \<open>ProcessExcel\<close> as a transition system, with one action for each
  statement that touches a channel or starts or ends the remote call. The main goroutine
  is at the send \<^verbatim>\<open>sem <- struct{}{}\<close> for the next pending entry (\<open>AtSend\<close>; past the loop
  when nothing is pending) or, the token sent, at the \<^verbatim>\<open>go\<close> statement (\<open>AtGo\<close>). A
  goroutine has been started, is inside \<open>FetchUserName\<close> (\<open>fetching\<close>), holds its result
  before \<^verbatim>\<open>results <- ...\<close> (\<open>sending\<close>), or stands before \<^verbatim>\<open><-sem\<close> (\<open>releasing\<close>). \<open>sem\<close>
  is the number of tokens in the channel of capacity \<open>n\<close>. An action that is not enabled
  (a send on a full channel, a receive on an empty one, a statement no goroutine is at)
  yields \<open>None\<close>. The channel \<open>results\<close> has room for every entry; the main goroutine
  receives from it after the loop. A schedule is a list of actions.
\<close>

datatype main_pc = AtSend | AtGo Entry

record excel_pool =
  pending :: "Entry list"
  main_at :: main_pc
  sem :: nat
  started :: "Entry multiset"
  fetching :: "Entry multiset"
  sending :: "Result multiset"
  releasing :: nat
  results_chan :: "Result list"
  applied :: "Result list"

definition excel_pool_init :: "Entry list \<Rightarrow> excel_pool" where
  "excel_pool_init entries =
     \<lparr>pending = entries, main_at = AtSend, sem = 0, started = {#}, fetching = {#},
      sending = {#}, releasing = 0, results_chan = [], applied = []\<rparr>"

datatype excel_action =
    Acquire           \<comment> \<open>main: \<^verbatim>\<open>sem <- struct{}{}\<close>\<close>
  | Spawn             \<comment> \<open>main: \<^verbatim>\<open>go func(e Entry) {...}(ent)\<close>\<close>
  | Call Entry        \<comment> \<open>goroutine: enters \<open>FetchUserName\<close>\<close>
  | Return Entry      \<comment> \<open>goroutine: \<open>FetchUserName\<close> returns\<close>
  | Send Result       \<comment> \<open>goroutine: \<^verbatim>\<open>results <- models.Result{...}\<close>\<close>
  | Release           \<comment> \<open>goroutine: \<^verbatim>\<open><-sem\<close>\<close>
  | Receive           \<comment> \<open>main: \<^verbatim>\<open>for res := range results\<close>\<close>

fun excel_pool_step ::
  "nat \<Rightarrow> identity_service \<Rightarrow> string \<Rightarrow> excel_action \<Rightarrow> excel_pool \<Rightarrow> excel_pool option" where
  "excel_pool_step n service secretKey Acquire s =
     (case pending s of
        [] \<Rightarrow> None
      | e # es \<Rightarrow>
          if main_at s = AtSend \<and> sem s < n
          then Some (s\<lparr>pending := es, main_at := AtGo e, sem := sem s + 1\<rparr>)
          else None)"
| "excel_pool_step n service secretKey Spawn s =
     (case main_at s of
        AtSend \<Rightarrow> None
      | AtGo e \<Rightarrow> Some (s\<lparr>main_at := AtSend, started := add_mset e (started s)\<rparr>))"
| "excel_pool_step n service secretKey (Call e) s =
     (if e \<in># started s
      then Some (s\<lparr>started := started s - {#e#}, fetching := add_mset e (fetching s)\<rparr>)
      else None)"
| "excel_pool_step n service secretKey (Return e) s =
     (if e \<in># fetching s
      then Some (s\<lparr>fetching := fetching s - {#e#},
                   sending := add_mset (fetch_entry service secretKey e) (sending s)\<rparr>)
      else None)"
| "excel_pool_step n service secretKey (Send r) s =
     (if r \<in># sending s
      then Some (s\<lparr>sending := sending s - {#r#}, results_chan := results_chan s @ [r],
                   releasing := releasing s + 1\<rparr>)
      else None)"
| "excel_pool_step n service secretKey Release s =
     (if 0 < releasing s \<and> 0 < sem s
      then Some (s\<lparr>releasing := releasing s - 1, sem := sem s - 1\<rparr>)
      else None)"
| "excel_pool_step n service secretKey Receive s =
     (case results_chan s of
        [] \<Rightarrow> None
      | r # rs \<Rightarrow>
          if pending s = [] \<and> main_at s = AtSend
          then Some (s\<lparr>results_chan := rs, applied := applied s @ [r]\<rparr>)
          else None)"

fun excel_pool_run ::
  "nat \<Rightarrow> identity_service \<Rightarrow> string \<Rightarrow> excel_action list \<Rightarrow> excel_pool \<Rightarrow> excel_pool option" where
  "excel_pool_run n service secretKey [] s = Some s"
| "excel_pool_run n service secretKey (a # as) s =
     (case excel_pool_step n service secretKey a s of
        None \<Rightarrow> None
      | Some s' \<Rightarrow> excel_pool_run n service secretKey as s')"

definition tokens_held :: "excel_pool \<Rightarrow> nat" where
  "tokens_held s =
     (case main_at s of AtSend \<Rightarrow> 0 | AtGo e \<Rightarrow> 1)
     + size (started s) + size (fetching s) + size (sending s) + releasing s"

text \<open>
  The pool has drained when the loop is over, every goroutine has returned and the
  channel \<open>results\<close> is empty. \<open>results_due\<close> collects the results applied, sent or still to
  be produced; \<open>steps_left\<close> counts the actions that remain: seven for each entry.
\<close>

definition excel_pool_final :: "excel_pool \<Rightarrow> bool" where
  "excel_pool_final s =
     (pending s = [] \<and> main_at s = AtSend \<and> started s = {#} \<and> fetching s = {#}
      \<and> sending s = {#} \<and> releasing s = 0 \<and> results_chan s = [])"

definition results_due :: "identity_service \<Rightarrow> string \<Rightarrow> excel_pool \<Rightarrow> Result multiset" where
  "results_due service secretKey s =
     mset (applied s) + mset (results_chan s) + sending s
     + image_mset (fetch_entry service secretKey) (fetching s)
     + image_mset (fetch_entry service secretKey) (started s)
     + (case main_at s of AtSend \<Rightarrow> {#} | AtGo e \<Rightarrow> {#fetch_entry service secretKey e#})
     + image_mset (fetch_entry service secretKey) (mset (pending s))"

definition steps_left :: "excel_pool \<Rightarrow> nat" where
  "steps_left s =
     7 * length (pending s) + (case main_at s of AtSend \<Rightarrow> 0 | AtGo e \<Rightarrow> 6)
     + 5 * size (started s) + 4 * size (fetching s) + 3 * size (sending s)
     + releasing s + length (results_chan s)"

section \<open>Bucket migration: \<open>migrate_gcp_to_aws\<close>\<close>

text \<open>
  The tool exists in two variants. The variant of \<open>part_001\<close> reads the date from the
  second path segment and skips an object whose date it cannot read; the variant of
  \<open>part_002\<close> reads the first segment, falls back to the creation time of the object and
  has a fifth counter \<open>skippedDate\<close>. Where the two differ, the definitions carry the
  suffix \<open>_001\<close> or \<open>_002\<close>.
\<close>

subsection \<open>Data\<close>

text \<open>
  A \<open>time.Time\<close> is an instant: seconds since the Unix epoch. Only the order of
  instants is used. The counters are \<open>atomic.Int64\<close>; the local counters of \<open>main\<close> are
  \<open>int\<close>, 64 bits wide on the platforms the AWS and GCS clients support.
\<close>

type_synonym time = int
type_synonym int64 = "64 word"
type_synonym bytes = "8 word list"

definition Before :: "time \<Rightarrow> time \<Rightarrow> bool" where
  "Before t u = (t < u)"

definition zero_time :: time where
  "zero_time = - 62135596800"   \<comment> \<open>\<open>time.Time{}\<close>: 1 January of year 1, UTC\<close>

text \<open>
  Two functions of Go's standard library are parameters of the model:
  \<open>strings.ToLower\<close> and \<open>time.Parse\<close> with the layout \<open>"2006-01-02"\<close> (\<open>None\<close> when it
  returns an error).
\<close>

record golib =
  ToLower :: "string \<Rightarrow> string"
  ParseDate :: "string \<Rightarrow> time option"

record Config =
  GCSBucket :: string
  S3Bucket :: string
  AWSCredentialsFile :: string
  AWSRegion :: string
  LogFile :: string
  CutoffDate :: time
  CutoffDateStr :: string
  MaxWorkers :: int
  VideoExtensions :: "string list"

record Stats =
  totalFiles :: int64
  copiedFiles :: int64
  skippedExisting :: int64
  errorFiles :: int64

record Stats_002 = Stats +
  skippedDate :: int64

record FileJob =
  GCSPath :: string
  RelativePath :: string
  CreatedTime :: time

text \<open>The fields of \<open>storage.ObjectAttrs\<close> that the tool reads.\<close>

record ObjectAttrs =
  Name :: string
  Created :: time

subsection \<open>Configuration\<close>

definition video_extensions :: "string list" where
  "video_extensions = [''.mp4'', ''.avi'', ''.mov'', ''.mkv'', ''.webm'', ''.m4v'']"

definition defaults_001 :: Config where
  "defaults_001 = \<lparr>GCSBucket = [], S3Bucket = [],
     AWSCredentialsFile = ''/home/sadiq/projects/scripts/migrate_gcp_to_aws/.aws/credentials'',
     AWSRegion = [],
     LogFile = ''/home/sadiq/projects/scripts/migrate_gcp_to_aws/logs/migrate_gcp_to_s3.log'',
     CutoffDate = zero_time, CutoffDateStr = ''2025-09-07'', MaxWorkers = 20,
     VideoExtensions = video_extensions\<rparr>"

definition defaults_002 :: Config where
  "defaults_002 = \<lparr>GCSBucket = [], S3Bucket = [],
     AWSCredentialsFile = ''/home/sadiq/projects/scripts/migrate_gcp_to_aws/.aws/credentials'',
     AWSRegion = ''ap-south-1'',
     LogFile = ''/home/sadiq/projects/scripts/migrate_gcp_to_aws/logs/migrate_gcp_to_s3.log'',
     CutoffDate = zero_time, CutoffDateStr = ''2025-09-07'', MaxWorkers = 10,
     VideoExtensions = video_extensions\<rparr>"

text \<open>
  The configuration file: it cannot be read (the defaults stand), it is not valid JSON
  for a \<open>Config\<close>, or it overrides some fields.
\<close>

datatype config_file =
    Unreadable
  | Malformed
  | Overrides "Config \<Rightarrow> Config"

definition LoadConfig :: "golib \<Rightarrow> Config \<Rightarrow> config_file \<Rightarrow> error + Config" where
  "LoadConfig lib defaults file =
     (case file of
        Malformed \<Rightarrow> Inl ConfigParseError
      | _ \<Rightarrow>
          (let config = (case file of Overrides f \<Rightarrow> f defaults | _ \<Rightarrow> defaults) in
           case ParseDate lib (CutoffDateStr config) of
             None \<Rightarrow> Inl CutoffParseError
           | Some cutoffDate \<Rightarrow> Inr (config\<lparr>CutoffDate := cutoffDate\<rparr>)))"

subsection \<open>Path functions\<close>

text \<open>\<open>strings.Split\<close> with a separator of one byte, \<open>strings.HasSuffix\<close>.\<close>

fun Split :: "string \<Rightarrow> char \<Rightarrow> string list" where
  "Split [] sep = [[]]"
| "Split (c # cs) sep =
     (if c = sep then [] # Split cs sep
      else (case Split cs sep of
              [] \<Rightarrow> [[c]]
            | part # parts \<Rightarrow> (c # part) # parts))"

definition HasSuffix :: "string \<Rightarrow> string \<Rightarrow> bool" where
  "HasSuffix s suffix =
     (length s \<ge> length suffix \<and> drop (length s - length suffix) s = suffix)"

fun ext_among :: "string \<Rightarrow> string list \<Rightarrow> bool" where
  "ext_among ext [] = False"
| "ext_among ext (validExt # rest) = (if ext = validExt then True else ext_among ext rest)"

definition isVideoFile :: "golib \<Rightarrow> string \<Rightarrow> string list \<Rightarrow> bool" where
  "isVideoFile lib filename extensions =
     (let ext = ToLower lib (filepath_Ext filename) in ext_among ext extensions)"

definition extractDateFromPath_001 :: "golib \<Rightarrow> string \<Rightarrow> error + time" where
  "extractDateFromPath_001 lib path =
     (let parts = Split path CHR ''/'' in
      if length parts < 2 then Inl (NotEnoughSegments path)
      else (let dateStr = parts ! 1 in
            case ParseDate lib dateStr of
              None \<Rightarrow> Inl (NotAValidDate dateStr)
            | Some date \<Rightarrow> Inr date))"

definition extractDateFromPath_002 :: "golib \<Rightarrow> string \<Rightarrow> error + time" where
  "extractDateFromPath_002 lib path =
     (let parts = Split path CHR ''/'' in
      if length parts = 0 then Inl EmptyPath
      else (let dateStr = parts ! 0 in
            case ParseDate lib dateStr of
              None \<Rightarrow> Inl (NotAValidDate dateStr)
            | Some date \<Rightarrow> Inr date))"

subsection \<open>The two stores\<close>

text \<open>
  The remote side: the objects of the source and of the destination, addressed by bucket
  and key, and for each remote call the requests that fail for a reason of their own
  (network, permission). \<open>uploads\<close> records every call of \<open>UploadWithContext\<close> with the
  body handed to it, so that "no byte was copied" can be stated.
\<close>

record world =
  gcs :: "string \<times> string \<rightharpoonup> bytes"
  s3 :: "string \<times> string \<rightharpoonup> bytes"
  head_fault :: "string \<times> string \<Rightarrow> bool"
  reader_fault :: "string \<times> string \<Rightarrow> bool"
  upload_fault :: "string \<times> string \<Rightarrow> bool"
  uploads :: "((string \<times> string) \<times> bytes) list"

definition HeadObject :: "world \<Rightarrow> string \<Rightarrow> string \<Rightarrow> error option" where
  "HeadObject w bucket key =
     (if head_fault w (bucket, key) then Some HeadError
      else if s3 w (bucket, key) = None then Some NoSuchKey
      else None)"

definition NewReader :: "world \<Rightarrow> string \<Rightarrow> string \<Rightarrow> error + bytes" where
  "NewReader w bucket path =
     (if reader_fault w (bucket, path) then Inl ReaderError
      else (case gcs w (bucket, path) of
              None \<Rightarrow> Inl ReaderError
            | Some content \<Rightarrow> Inr content))"

definition UploadWithContext :: "world \<Rightarrow> string \<Rightarrow> string \<Rightarrow> bytes \<Rightarrow> error option \<times> world" where
  "UploadWithContext w bucket key body =
     (let w1 = w\<lparr>uploads := uploads w @ [((bucket, key), body)]\<rparr> in
      if upload_fault w (bucket, key) then (Some UploadError, w1)
      else (None, w1\<lparr>s3 := (s3 w)((bucket, key) \<mapsto> body)\<rparr>))"

definition bytes_copied :: "world \<Rightarrow> nat" where
  "bytes_copied w = sum_list (map (\<lambda>u. length (snd u)) (uploads w))"

definition fileExistsInS3 :: "world \<Rightarrow> string \<Rightarrow> string \<Rightarrow> bool" where
  "fileExistsInS3 w bucket key = (HeadObject w bucket key = None)"

subsection \<open>The worker\<close>

text \<open>
  \<open>worker config jobs (stats, w)\<close> is the loop \<^verbatim>\<open>for job := range jobs\<close> of one worker
  over the jobs it receives; \<^verbatim>\<open>continue\<close> is the recursive call. The function serves both
  variants: the record of the second variant extends \<open>Stats\<close>. Both workers log; the
  first also reads the size of the object for its log line.
\<close>

fun worker :: "Config \<Rightarrow> FileJob list \<Rightarrow> 'a Stats_scheme \<times> world \<Rightarrow> 'a Stats_scheme \<times> world" where
  "worker config [] (stats, w) = (stats, w)"
| "worker config (job # jobs) (stats, w) =
     (let stats = stats\<lparr>totalFiles := totalFiles stats + 1\<rparr> in
      if fileExistsInS3 w (S3Bucket config) (RelativePath job) then
        worker config jobs (stats\<lparr>skippedExisting := skippedExisting stats + 1\<rparr>, w)
      else
        (case NewReader w (GCSBucket config) (GCSPath job) of
           Inl err \<Rightarrow> worker config jobs (stats\<lparr>errorFiles := errorFiles stats + 1\<rparr>, w)
         | Inr reader \<Rightarrow>
             (case UploadWithContext w (S3Bucket config) (RelativePath job) reader of
                (Some err, w') \<Rightarrow>
                  worker config jobs (stats\<lparr>errorFiles := errorFiles stats + 1\<rparr>, w')
              | (None, w') \<Rightarrow>
                  worker config jobs (stats\<lparr>copiedFiles := copiedFiles stats + 1\<rparr>, w'))))"

subsection \<open>The enumerator\<close>

text \<open>
  What \<open>it.Next()\<close> returns before \<open>iterator.Done\<close>: the attributes of an object, or an
  error, at which the loop stops. The end of the list is \<open>iterator.Done\<close>.
\<close>

datatype listed = Object ObjectAttrs | ListingError

record scan_state =
  queue :: "FileJob list"
  filesQueued :: int64
  skippedByDate :: int64

record scan_state_001 = scan_state +
  totalProcessed :: int64

definition scan_init_002 :: scan_state where
  "scan_init_002 = \<lparr>queue = [], filesQueued = 0, skippedByDate = 0\<rparr>"

definition scan_init_001 :: scan_state_001 where
  "scan_init_001 = \<lparr>queue = [], filesQueued = 0, skippedByDate = 0, totalProcessed = 0\<rparr>"

fun scan_001 :: "golib \<Rightarrow> Config \<Rightarrow> listed list \<Rightarrow> scan_state_001 \<Rightarrow> scan_state_001" where
  "scan_001 lib config [] st = st"
| "scan_001 lib config (ListingError # rest) st = st"
| "scan_001 lib config (Object attrs # rest) st =
     (if HasSuffix (Name attrs) ''/'' then scan_001 lib config rest st
      else if \<not> isVideoFile lib (Name attrs) (VideoExtensions config) then scan_001 lib config rest st
      else
        (let st = st\<lparr>totalProcessed := totalProcessed st + 1\<rparr> in
         case extractDateFromPath_001 lib (Name attrs) of
           Inl err \<Rightarrow> scan_001 lib config rest (st\<lparr>skippedByDate := skippedByDate st + 1\<rparr>)
         | Inr folderDate \<Rightarrow>
             if Before folderDate (CutoffDate config) then
               scan_001 lib config rest (st\<lparr>skippedByDate := skippedByDate st + 1\<rparr>)
             else
               (let job = \<lparr>GCSPath = Name attrs, RelativePath = Name attrs, CreatedTime = folderDate\<rparr>
                in scan_001 lib config rest
                     (st\<lparr>queue := queue st @ [job], filesQueued := filesQueued st + 1\<rparr>))))"

fun scan_002 :: "golib \<Rightarrow> Config \<Rightarrow> listed list \<Rightarrow> scan_state \<Rightarrow> scan_state" where
  "scan_002 lib config [] st = st"
| "scan_002 lib config (ListingError # rest) st = st"
| "scan_002 lib config (Object attrs # rest) st =
     (if HasSuffix (Name attrs) ''/'' then scan_002 lib config rest st
      else if \<not> isVideoFile lib (Name attrs) (VideoExtensions config) then scan_002 lib config rest st
      else
        (let skip =
           (case extractDateFromPath_002 lib (Name attrs) of
              Inl err \<Rightarrow> Before (Created attrs) (CutoffDate config)
            | Inr folderDate \<Rightarrow> Before folderDate (CutoffDate config))
         in if skip then scan_002 lib config rest (st\<lparr>skippedByDate := skippedByDate st + 1\<rparr>)
            else
              (let job = \<lparr>GCSPath = Name attrs, RelativePath = Name attrs, CreatedTime = Created attrs\<rparr>
               in scan_002 lib config rest
                    (st\<lparr>queue := queue st @ [job], filesQueued := filesQueued st + 1\<rparr>))))"

subsection \<open>\<open>main\<close>, from the creation of the job channel on\<close>

text \<open>
  The set-up before (configuration, log file, clients) ends the process on failure and is
  not part of the model. \<open>config.MaxWorkers\<close> is a Go \<open>int\<close> of 64 bits, so the product
  in \<^verbatim>\<open>make(chan FileJob, config.MaxWorkers*2)\<close> wraps around: \<open>wrap64\<close> is the value of
  an integer in 64-bit two's complement. \<open>make\<close> panics on a negative size. What it does
  with a size that is not negative, and whether the goroutines of the workers can be
  started, depends on the memory of the machine: the runtime refuses a buffer beyond what
  it can allocate ("makechan: size out of range") and ends the process when the memory
  is not there. These two answers of the runtime are parameters of the model.
\<close>

definition wrap64 :: "int \<Rightarrow> int" where
  "wrap64 x = (x + 2 ^ 63) mod 2 ^ 64 - 2 ^ 63"

record machine =
  make_chan :: "int \<Rightarrow> error option"          \<comment> \<open>\<open>make(chan FileJob, n)\<close> for \<open>n \<ge> 0\<close>\<close>
  start_goroutines :: "int \<Rightarrow> error option"   \<comment> \<open>\<open>n\<close> times \<open>go worker(...)\<close>, for \<open>n > 0\<close>\<close>

text \<open>
  The pool starts when the number of workers is positive, twice the number does not wrap
  around, and the runtime grants the channel and the goroutines.
\<close>

definition pool_starts :: "machine \<Rightarrow> Config \<Rightarrow> bool" where
  "pool_starts m config =
     (0 < MaxWorkers config \<and> MaxWorkers config < 2 ^ 62
      \<and> make_chan m (MaxWorkers config * 2) = None
      \<and> start_goroutines m (MaxWorkers config) = None)"

text \<open>
  The loop \<^verbatim>\<open>for i := 1; i <= config.MaxWorkers; i++\<close> starts no worker when
  \<open>MaxWorkers\<close> is not positive. Then nothing receives from the channel: \<open>main\<close> blocks
  for ever at the first send that finds the buffer full, and when the buffer holds the
  whole queue \<open>main\<close> reports counters that no worker has touched. With workers, they
  take the jobs from the channel in the order of the queue; the model runs them one job
  after the other, which is what the atomic counters add up to under any interleaving,
  and what the stores hold when the listed names are distinct. What \<open>main\<close> logs at the
  end is the report.
\<close>

record report_002 =
  log_skipped_by_date :: int64     \<comment> \<open>"Skipped %d files before cutoff date %s"\<close>
  log_queued :: int64              \<comment> \<open>"Queued %d files for processing, ..."\<close>
  sum_total :: int64               \<comment> \<open>"Total files processed: %d"\<close>
  sum_copied :: int64              \<comment> \<open>"Files copied: %d"\<close>
  sum_skipped_existing :: int64    \<comment> \<open>"Files skipped (already exist): %d"\<close>
  sum_skipped_date :: int64        \<comment> \<open>"Files skipped (before cutoff date): %d"\<close>
  sum_errors :: int64              \<comment> \<open>"Errors: %d"\<close>

record report_001 =
  scanned :: int64                 \<comment> \<open>"Total video files scanned: %d"\<close>
  skipped_before_cutoff :: int64   \<comment> \<open>"Files skipped (before cutoff %s): %d"\<close>
  queued_for_copying :: int64      \<comment> \<open>"Files queued for copying: %d"\<close>
  processed :: int64               \<comment> \<open>"Total files processed: %d"\<close>
  copied :: int64                  \<comment> \<open>"Files copied to S3: %d"\<close>
  skipped_existing :: int64        \<comment> \<open>"Files skipped (already exist): %d"\<close>
  errors :: int64                  \<comment> \<open>"Errors: %d"\<close>

definition stats_init_001 :: Stats where
  "stats_init_001 = \<lparr>totalFiles = 0, copiedFiles = 0, skippedExisting = 0, errorFiles = 0\<rparr>"

definition stats_init_002 :: Stats_002 where
  "stats_init_002 =
     \<lparr>totalFiles = 0, copiedFiles = 0, skippedExisting = 0, errorFiles = 0, skippedDate = 0\<rparr>"

definition main_001 ::
  "machine \<Rightarrow> golib \<Rightarrow> Config \<Rightarrow> listed list \<Rightarrow> world \<Rightarrow> error + report_001 \<times> world" where
  "main_001 m lib config listing w =
     (let size = wrap64 (MaxWorkers config * 2) in
      if size < 0 then Inl ChanSizeOutOfRange
      else
        (case make_chan m size of
           Some err \<Rightarrow> Inl err
         | None \<Rightarrow>
             (case (if 0 < MaxWorkers config then start_goroutines m (MaxWorkers config) else None) of
                Some err \<Rightarrow> Inl err
              | None \<Rightarrow>
                  (let sc = scan_001 lib config listing scan_init_001 in
                   if \<not> 0 < MaxWorkers config \<and> size < int (length (queue sc))
                   then Inl BlockedForever
                   else
                     (case (if 0 < MaxWorkers config
                            then worker config (queue sc) (stats_init_001, w)
                            else (stats_init_001, w)) of
                        (stats, w') \<Rightarrow>
                          Inr (\<lparr>scanned = totalProcessed sc,
                                skipped_before_cutoff = skippedByDate sc,
                                queued_for_copying = filesQueued sc,
                                processed = totalFiles stats,
                                copied = copiedFiles stats,
                                skipped_existing = skippedExisting stats,
                                errors = errorFiles stats\<rparr>, w'))))))"

definition main_002 ::
  "machine \<Rightarrow> golib \<Rightarrow> Config \<Rightarrow> listed list \<Rightarrow> world \<Rightarrow> error + report_002 \<times> world" where
  "main_002 m lib config listing w =
     (let size = wrap64 (MaxWorkers config * 2) in
      if size < 0 then Inl ChanSizeOutOfRange
      else
        (case make_chan m size of
           Some err \<Rightarrow> Inl err
         | None \<Rightarrow>
             (case (if 0 < MaxWorkers config then start_goroutines m (MaxWorkers config) else None) of
                Some err \<Rightarrow> Inl err
              | None \<Rightarrow>
                  (let sc = scan_002 lib config listing scan_init_002 in
                   if \<not> 0 < MaxWorkers config \<and> size < int (length (queue sc))
                   then Inl BlockedForever
                   else
                     (case (if 0 < MaxWorkers config
                            then worker config (queue sc) (stats_init_002, w)
                            else (stats_init_002, w)) of
                        (stats, w') \<Rightarrow>
                          Inr (\<lparr>log_skipped_by_date = skippedByDate sc,
                                log_queued = filesQueued sc,
                                sum_total = totalFiles stats,
                                sum_copied = copiedFiles stats,
                                sum_skipped_existing = skippedExisting stats,
                                sum_skipped_date = skippedDate stats,
                                sum_errors = errorFiles stats\<rparr>, w'))))))"

subsection \<open>The pool of the migration, step by step\<close>

text \<open>
  \<open>main\<close> starts the workers in the loop \<^verbatim>\<open>for i := 1; i <= config.MaxWorkers; i++\<close>
  (\<open>next_worker\<close> is \<open>i\<close>), then sends the jobs on the channel of capacity
  \<open>MaxWorkers * 2\<close> and closes it. A worker waits for a job (\<open>Idle\<close>) or processes one
  (\<open>Busy\<close>): the existence check, the read and the upload of that job are in flight until
  the worker finishes the job, with the effect that \<open>worker\<close> has on the counters and the
  stores for that job. A worker returns when the channel is closed and empty.
\<close>

datatype worker_state = Idle | Busy FileJob

record 'a migration_pool =
  next_worker :: int
  workers :: "worker_state multiset"
  to_send :: "FileJob list"
  jobs_chan :: "FileJob list"
  jobs_closed :: bool
  pool_stats :: "'a Stats_scheme"
  remote :: world

definition migration_pool_init ::
  "FileJob list \<Rightarrow> 'a Stats_scheme \<Rightarrow> world \<Rightarrow> 'a migration_pool" where
  "migration_pool_init jobs stats w =
     \<lparr>next_worker = 1, workers = {#}, to_send = jobs, jobs_chan = [], jobs_closed = False,
      pool_stats = stats, remote = w\<rparr>"

datatype migration_action =
    Start             \<comment> \<open>main: \<^verbatim>\<open>go worker(...)\<close>, \<^verbatim>\<open>i++\<close>\<close>
  | Enqueue           \<comment> \<open>main: \<^verbatim>\<open>jobs <- job\<close>\<close>
  | Close             \<comment> \<open>main: \<^verbatim>\<open>close(jobs)\<close>\<close>
  | Take              \<comment> \<open>worker: receives the next job from \<open>jobs\<close>\<close>
  | Finish FileJob    \<comment> \<open>worker: the loop body for the job is done\<close>
  | Leave             \<comment> \<open>worker: the channel is closed and empty\<close>

fun migration_pool_step ::
  "Config \<Rightarrow> migration_action \<Rightarrow> 'a migration_pool \<Rightarrow> 'a migration_pool option" where
  "migration_pool_step config Start s =
     (if next_worker s \<le> MaxWorkers config
      then Some (s\<lparr>next_worker := next_worker s + 1, workers := add_mset Idle (workers s)\<rparr>)
      else None)"
| "migration_pool_step config Enqueue s =
     (case to_send s of
        [] \<Rightarrow> None
      | job # rest \<Rightarrow>
          if \<not> next_worker s \<le> MaxWorkers config \<and> \<not> jobs_closed s
             \<and> int (length (jobs_chan s)) < MaxWorkers config * 2
          then Some (s\<lparr>to_send := rest, jobs_chan := jobs_chan s @ [job]\<rparr>)
          else None)"
| "migration_pool_step config Close s =
     (if \<not> next_worker s \<le> MaxWorkers config \<and> to_send s = [] \<and> \<not> jobs_closed s
      then Some (s\<lparr>jobs_closed := True\<rparr>)
      else None)"
| "migration_pool_step config Take s =
     (case jobs_chan s of
        [] \<Rightarrow> None
      | job # rest \<Rightarrow>
          if Idle \<in># workers s
          then Some (s\<lparr>workers := add_mset (Busy job) (workers s - {#Idle#}), jobs_chan := rest\<rparr>)
          else None)"
| "migration_pool_step config (Finish job) s =
     (if Busy job \<in># workers s
      then (case worker config [job] (pool_stats s, remote s) of
              (stats', w') \<Rightarrow>
                Some (s\<lparr>workers := add_mset Idle (workers s - {#Busy job#}),
                        pool_stats := stats', remote := w'\<rparr>))
      else None)"
| "migration_pool_step config Leave s =
     (if Idle \<in># workers s \<and> jobs_chan s = [] \<and> jobs_closed s
      then Some (s\<lparr>workers := workers s - {#Idle#}\<rparr>)
      else None)"

fun migration_pool_run ::
  "Config \<Rightarrow> migration_action list \<Rightarrow> 'a migration_pool \<Rightarrow> 'a migration_pool option" where
  "migration_pool_run config [] s = Some s"
| "migration_pool_run config (a # as) s =
     (case migration_pool_step config a s of
        None \<Rightarrow> None
      | Some s' \<Rightarrow> migration_pool_run config as s')"

definition in_flight :: "'a migration_pool \<Rightarrow> nat" where
  "in_flight s = size (filter_mset (\<lambda>ws. ws \<noteq> Idle) (workers s))"

text \<open>
  The jobs that are not finished yet, and the fact that every job in the pool is one of
  the jobs that \<open>main\<close> set out to send.
\<close>

definition jobs_left :: "'a migration_pool \<Rightarrow> nat" where
  "jobs_left t = length (to_send t) + length (jobs_chan t) + in_flight t"

definition jobs_known :: "FileJob list \<Rightarrow> 'a migration_pool \<Rightarrow> bool" where
  "jobs_known jobs t =
     (set (to_send t) \<subseteq> set jobs \<and> set (jobs_chan t) \<subseteq> set jobs
      \<and> (\<forall>job. Busy job \<in># workers t \<longrightarrow> job \<in> set jobs))"

subsection \<open>The library functions on ASCII input\<close>

text \<open>
  For running the enumerator on concrete names: \<open>strings.ToLower\<close> on ASCII strings, and
  \<open>time.Parse("2006-01-02", s)\<close>, which accepts exactly four digits, a hyphen, two digits,
  a hyphen and two digits that name a day of the calendar, and returns midnight UTC of
  that day.
\<close>

definition ascii_lower :: "char \<Rightarrow> char" where
  "ascii_lower c =
     (let n = (of_char c :: nat) in if 65 \<le> n \<and> n \<le> 90 then char_of (n + 32) else c)"

definition is_digit :: "char \<Rightarrow> bool" where
  "is_digit c = (let n = (of_char c :: nat) in 48 \<le> n \<and> n \<le> 57)"

fun atoi_acc :: "int \<Rightarrow> string \<Rightarrow> int" where
  "atoi_acc acc [] = acc"
| "atoi_acc acc (c # cs) = atoi_acc (acc * 10 + (int (of_char c) - 48)) cs"

definition isLeap :: "int \<Rightarrow> bool" where
  "isLeap year = (year mod 4 = 0 \<and> (year mod 100 \<noteq> 0 \<or> year mod 400 = 0))"

definition daysIn :: "int \<Rightarrow> int \<Rightarrow> int" where
  "daysIn month year =
     (if month = 2 then (if isLeap year then 29 else 28)
      else if month \<in> {4, 6, 9, 11} then 30 else 31)"

definition days_from_civil :: "int \<Rightarrow> int \<Rightarrow> int \<Rightarrow> int" where
  "days_from_civil year month day =
     (let y = (if month \<le> 2 then year - 1 else year);
          era = y div 400;
          yoe = y - era * 400;
          mp = (if month > 2 then month - 3 else month + 9);
          doy = (153 * mp + 2) div 5 + day - 1;
          doe = yoe * 365 + yoe div 4 - yoe div 100 + doy
      in era * 146097 + doe - 719468)"

definition parse_date :: "string \<Rightarrow> time option" where
  "parse_date s =
     (if length s = 10 \<and> s ! 4 = CHR ''-'' \<and> s ! 7 = CHR ''-''
         \<and> list_all is_digit (take 4 s) \<and> list_all is_digit (take 2 (drop 5 s))
         \<and> list_all is_digit (drop 8 s)
      then
        (let year = atoi_acc 0 (take 4 s);
             month = atoi_acc 0 (take 2 (drop 5 s));
             day = atoi_acc 0 (drop 8 s)
         in if 1 \<le> month \<and> month \<le> 12 \<and> 1 \<le> day \<and> day \<le> daysIn month year
            then Some (days_from_civil year month day * 86400)
            else None)
      else None)"

definition ascii_lib :: golib where
  "ascii_lib = \<lparr>ToLower = map ascii_lower, ParseDate = parse_date\<rparr>"

subsection \<open>Notions for stating the properties of the enumerator\<close>

text \<open>
  The objects that the loop reaches are those listed before the first listing error. A
  candidate is an object that is not a directory marker and has a video extension. The
  date test of each variant decides which candidates are queued, and the job of an
  object is the \<open>FileJob\<close> that the loop builds for it.
\<close>

fun listed_objects :: "listed list \<Rightarrow> ObjectAttrs list" where
  "listed_objects [] = []"
| "listed_objects (ListingError # rest) = []"
| "listed_objects (Object attrs # rest) = attrs # listed_objects rest"

definition is_candidate :: "golib \<Rightarrow> Config \<Rightarrow> ObjectAttrs \<Rightarrow> bool" where
  "is_candidate lib config a =
     (\<not> HasSuffix (Name a) ''/'' \<and> isVideoFile lib (Name a) (VideoExtensions config))"

definition skip_001 :: "golib \<Rightarrow> Config \<Rightarrow> ObjectAttrs \<Rightarrow> bool" where
  "skip_001 lib config a =
     (case extractDateFromPath_001 lib (Name a) of
        Inl err \<Rightarrow> True
      | Inr folderDate \<Rightarrow> Before folderDate (CutoffDate config))"

definition skip_002 :: "golib \<Rightarrow> Config \<Rightarrow> ObjectAttrs \<Rightarrow> bool" where
  "skip_002 lib config a =
     (case extractDateFromPath_002 lib (Name a) of
        Inl err \<Rightarrow> Before (Created a) (CutoffDate config)
      | Inr folderDate \<Rightarrow> Before folderDate (CutoffDate config))"

definition job_001 :: "golib \<Rightarrow> ObjectAttrs \<Rightarrow> FileJob" where
  "job_001 lib a =
     \<lparr>GCSPath = Name a, RelativePath = Name a,
      CreatedTime = (case extractDateFromPath_001 lib (Name a) of
                       Inl err \<Rightarrow> zero_time
                     | Inr folderDate \<Rightarrow> folderDate)\<rparr>"

definition job_002 :: "ObjectAttrs \<Rightarrow> FileJob" where
  "job_002 a = \<lparr>GCSPath = Name a, RelativePath = Name a, CreatedTime = Created a\<rparr>"

section \<open>Concrete inputs\<close>

text \<open>
  A sheet with the identifiers in column 5: one the service does not know, one it
  resolves, and one cell that holds two spaces. \<open>GetRows\<close> returns the rows without their
  trailing empty cells.
\<close>

definition example_sheet :: "string list list" where
  "example_sheet =
     [[''no'', ''a'', ''b'', ''c'', ''user id''],
      [''1'', [], [], [], ''user_a''],
      [''2'', [], [], [], ''user_b''],
      [''3'', [], [], [], ''  '']]"

definition example_env :: excel_env where
  "example_env =
     \<lparr>open_file = (\<lambda>p. if p = ''users.xlsx'' then Sheet example_sheet else OpenFails),
      save_fails = (\<lambda>p. False)\<rparr>"

definition ann_lee :: ClerkUser where
  "ann_lee = \<lparr>FirstName = ''Ann'', LastName = ''Lee'', Username = ''annlee'',
              EmailAddresses = [\<lparr>EmailAddress = ''ann@example.com''\<rparr>]\<rparr>"

definition example_service :: identity_service where
  "example_service uid key =
     (if uid = ''user_a'' then Response 404 None
      else if uid = ''user_b'' then Response 200 (Some ann_lee)
      else DoFails)"

text \<open>
  A schedule of the pool for the three entries of the example sheet: all three goroutines
  are started, the third returns first.
\<close>

definition example_schedule :: "excel_action list" where
  "example_schedule =
     [Acquire, Spawn, Acquire, Spawn, Acquire, Spawn,
      Call \<lparr>Row = 4, UserID = ''  ''\<rparr>, Call \<lparr>Row = 2, UserID = ''user_a''\<rparr>,
      Return \<lparr>Row = 4, UserID = ''  ''\<rparr>,
      Send \<lparr>ResultRow = 4, UserName = ''Unknown User (  )''\<rparr>,
      Call \<lparr>Row = 3, UserID = ''user_b''\<rparr>,
      Return \<lparr>Row = 2, UserID = ''user_a''\<rparr>, Return \<lparr>Row = 3, UserID = ''user_b''\<rparr>,
      Send \<lparr>ResultRow = 2, UserName = ''Unknown User (user_a)''\<rparr>,
      Send \<lparr>ResultRow = 3, UserName = ''Ann Lee''\<rparr>,
      Release, Release, Release, Receive, Receive, Receive]"

text \<open>
  The migration with the default cutoff date 2025-09-07 (midnight UTC is second
  1757203200), from bucket \<open>src\<close> to bucket \<open>dst\<close>. The creation times are
  2025-08-01 (second 1754006400) and 2025-10-01 (second 1759276800).
\<close>

definition example_config_001 :: Config where
  "example_config_001 =
     defaults_001\<lparr>GCSBucket := ''src'', S3Bucket := ''dst'', CutoffDate := 1757203200\<rparr>"

definition example_config_002 :: Config where
  "example_config_002 =
     defaults_002\<lparr>GCSBucket := ''src'', S3Bucket := ''dst'', CutoffDate := 1757203200\<rparr>"

definition example_listing_001 :: "listed list" where
  "example_listing_001 =
     [Object \<lparr>Name = ''port1/2025-09-07/a.mp4'', Created = 1759276800\<rparr>,
      Object \<lparr>Name = ''port1/2025-09-06/b.mp4'', Created = 1759276800\<rparr>,
      Object \<lparr>Name = ''port1/notes/c.mp4'', Created = 1759276800\<rparr>]"

definition example_listing_002 :: "listed list" where
  "example_listing_002 =
     [Object \<lparr>Name = ''2025-09-07/a.mp4'', Created = 1754006400\<rparr>,
      Object \<lparr>Name = ''2025-09-06/b.mp4'', Created = 1759276800\<rparr>,
      Object \<lparr>Name = ''misc/c.mp4'', Created = 1759276800\<rparr>,
      Object \<lparr>Name = ''misc/d.mp4'', Created = 1754006400\<rparr>]"

text \<open>A machine with the memory for a million buffered jobs and a million workers.\<close>

definition example_machine :: machine where
  "example_machine =
     \<lparr>make_chan = (\<lambda>n. if n \<le> 1000000 then None else Some ChanSizeOutOfRange),
      start_goroutines = (\<lambda>n. if n \<le> 1000000 then None else Some OutOfMemory)\<rparr>"

text \<open>
  A remote side where every source object holds three bytes and the destination already
  holds every key, and the same with a \<open>HeadObject\<close> that fails.
\<close>

definition full_destination :: world where
  "full_destination =
     \<lparr>gcs = (\<lambda>k. if fst k = ''src'' then Some [1, 2, 3] else None),
      s3 = (\<lambda>k. if fst k = ''dst'' then Some [1, 2, 3] else None),
      head_fault = (\<lambda>k. False), reader_fault = (\<lambda>k. False), upload_fault = (\<lambda>k. False),
      uploads = []\<rparr>"

definition failing_head :: world where
  "failing_head = full_destination\<lparr>head_fault := (\<lambda>k. True)\<rparr>"

section \<open>Properties of the identity resolution\<close>

lemma stringTrim_ident: "stringTrim s = s"
  by (simp add: stringTrim_def string_of_bytes_def bytes_of_string_def comp_def)

lemma FetchUserName_200:
  "service userID secretKey = Response 200 (Some user) \<Longrightarrow>
   FetchUserName service userID secretKey = Inr (FirstName user @ '' '' @ LastName user)"
  by (simp add: FetchUserName_def StatusOK_def stringTrim_ident fullName_def)

text \<open>The resolution fails exactly in these four cases.\<close>

lemma FetchUserName_error_iff:
  "FetchUserName service userID secretKey = Inl err \<longleftrightarrow>
     (service userID secretKey = NewRequestFails \<and> err = RequestError)
   \<or> (service userID secretKey = DoFails \<and> err = TransportError)
   \<or> (\<exists>code body. service userID secretKey = Response code body \<and> code \<noteq> 200
         \<and> err = BadStatus code)
   \<or> (service userID secretKey = Response 200 None \<and> err = MalformedBody)"
  by (auto simp: FetchUserName_def StatusOK_def Let_def
      split: http_outcome.splits option.splits if_splits)

text \<open>
  Claim C1. With status 200 and empty first and last names the resolution is meant to
  return the first email address, else the handle, else \<open>"User "\<close> and the identifier.
  The code returns the joined name, which is the single space, whatever the email
  addresses and the handle of the user are: here for a user who has both.
\<close>

theorem FetchUserName_empty_name_returns_space:
  "FetchUserName
     (\<lambda>uid key. Response 200 (Some \<lparr>FirstName = [], LastName = [], Username = ''annlee'',
        EmailAddresses = [\<lparr>EmailAddress = ''ann@example.com''\<rparr>]\<rparr>))
     ''user_c'' ''sk_test'' = Inr '' ''"
  by (simp add: FetchUserName_200)

text \<open>
  Claim C2. With status 200 and a name the resolution is meant to return the joined
  first and last name without surrounding white space. For a user with a first name only
  the code returns the name followed by the joining space.
\<close>

theorem FetchUserName_first_name_only_untrimmed:
  "FetchUserName
     (\<lambda>uid key. Response 200 (Some \<lparr>FirstName = ''Ann'', LastName = [], Username = [],
        EmailAddresses = []\<rparr>))
     ''user_d'' ''sk_test'' = Inr ''Ann ''
   \<and> spec_trimmed (''Ann'' @ '' '' @ []) = ''Ann''"
  by (simp add: FetchUserName_200 spec_trimmed_def is_space_def)

text \<open>
  Claim C3. \<open>stringTrim\<close> returns its argument: it removes no white space. So the joined
  name, which contains the joining space, is never empty after \<open>stringTrim\<close>, and a cell
  of white space only is an identifier: the row of such a cell yields an entry.
\<close>

theorem stringTrim_is_identity:
  "stringTrim s = s
   \<and> stringTrim (fullName user) \<noteq> []
   \<and> (cell \<noteq> [] \<and> list_all is_space cell \<longrightarrow> stringTrim cell \<noteq> [])
   \<and> (cell \<noteq> [] \<and> list_all is_space cell \<and> go_index row (col - 1) = Inr cell
        \<and> col \<le> int (length row) \<and> collect_rows col (r + 1) rest = Inr entries
      \<longrightarrow> collect_rows col r (row # rest) = Inr (\<lparr>Row = r + 1, UserID = cell\<rparr> # entries))"
  by (simp add: stringTrim_ident fullName_def)

theorem stringTrim_is_identity_witness:
  "stringTrim '' ab '' = '' ab ''
   \<and> stringTrim (fullName \<lparr>FirstName = [], LastName = [], Username = [], EmailAddresses = []\<rparr>) \<noteq> []
   \<and> ''  '' \<noteq> [] \<and> list_all is_space ''  '' \<and> stringTrim ''  '' \<noteq> []
   \<and> go_index [''3'', [], [], [], ''  ''] (5 - 1) = Inr ''  ''
   \<and> collect_rows 5 4 [] = Inr []
   \<and> collect_rows 5 3 [[''3'', [], [], [], ''  '']] = Inr [\<lparr>Row = 4, UserID = ''  ''\<rparr>]"
  using stringTrim_is_identity [of "'' ab ''"
      "\<lparr>FirstName = [], LastName = [], Username = [], EmailAddresses = []\<rparr>"
      "''  ''" "[''3'', [], [], [], ''  '']" 5 3 "[]" "[]"]
  by (simp add: is_space_def go_index_def)

section \<open>Properties of \<open>ProcessExcel\<close>\<close>

text \<open>With a positive capacity the order of completion is a permutation of the entries.\<close>

lemma completion_order_mset:
  "0 < n \<Longrightarrow> mset (completion_order n ks xs) = mset xs"
proof (induction n ks xs rule: completion_order.induct)
  case (1 n ks)
  then show ?case by simp
next
  case (2 n x xs)
  then show ?case by simp
next
  case (3 n k ks x xs)
  define i where "i = k mod min n (Suc (length xs))"
  define l where "l = x # xs"
  define rest where "rest = take i l @ drop (Suc i) l"
  have "0 < min n (Suc (length xs))" using "3.prems" by simp
  then have "i < min n (Suc (length xs))" unfolding i_def by (rule mod_less_divisor)
  then have il: "i < length l" by (simp add: l_def)
  have ih: "mset (completion_order n ks rest) = mset rest"
    using "3.IH"[of i] "3.prems" by (simp add: i_def rest_def l_def)
  have "l = take i l @ (l ! i) # drop (Suc i) l"
    using il by (rule id_take_nth_drop)
  then have "mset l = mset (take i l @ (l ! i) # drop (Suc i) l)" by simp
  then have split: "mset l = add_mset (l ! i) (mset rest)"
    by (simp add: rest_def)
  have "completion_order n (k # ks) (x # xs) = (l ! i) # completion_order n ks rest"
    using "3.prems" by (simp add: Let_def i_def l_def rest_def del: take_Cons' drop_Suc_Cons)
  then show ?case using ih split by (simp add: l_def)
qed

text \<open>The rows of the entries increase, and lie below the position the loop starts at.\<close>

lemma collect_rows_bounds:
  "collect_rows col r rest = Inr es \<Longrightarrow> sorted_wrt (<) (map Row es) \<and> (\<forall>e \<in> set es. r < Row e)"
proof (induction rest arbitrary: r es)
  case Nil
  then show ?case by simp
next
  case (Cons row rest)
  show ?case
  proof (cases "collect_rows col (r + 1) rest")
    case (Inl e)
    with Cons.prems show ?thesis
      by (auto split: if_splits sum.splits simp: Let_def)
  next
    case (Inr es')
    from Cons.IH[OF Inr] have ih: "sorted_wrt (<) (map Row es')" "\<forall>e\<in>set es'. r + 1 < Row e"
      by auto
    from Cons.prems Inr have "es = es' \<or> (\<exists>uid. es = \<lparr>Row = r + 1, UserID = uid\<rparr> # es')"
      by (auto split: if_splits sum.splits simp: Let_def)
    then show ?thesis using ih by fastforce
  qed
qed

lemma collect_entries_rows:
  assumes "collect_entries col rows = Inr entries"
  shows "distinct (map Row entries)" and "\<forall>e \<in> set entries. 1 < Row e"
proof -
  from assms have "collect_rows col 1 (drop 1 rows) = Inr entries"
    by (simp add: collect_entries_def)
  from collect_rows_bounds[OF this]
  show "distinct (map Row entries)" and "\<forall>e \<in> set entries. 1 < Row e"
    by (simp_all add: strict_sorted_iff)
qed

lemma collect_entries_nonempty:
  "collect_entries col rows = Inr entries \<Longrightarrow> entries \<noteq> [] \<Longrightarrow> rows \<noteq> []"
  by (auto simp: collect_entries_def)

text \<open>What \<open>ProcessExcel\<close> returns once the sheet is read and the pool has a slot.\<close>

lemma ProcessExcel_char:
  assumes "open_file env filePath = Sheet rows"
    and "collect_entries (USERIDs_COLOUMN consts) rows = Inr entries"
    and "rows \<noteq> []"
    and "0 < BATCH_SIZE consts"
  shows "ProcessExcel consts env service sched filePath secretKey =
     (if save_fails env (updated_path filePath) then Inl SaveError
      else Inr \<lparr>out_path = updated_path filePath,
                writes = ((length (hd rows) + 1, 1), ''User Name'') #
                  map (result_write (length (hd rows) + 1))
                    (map (fetch_entry service secretKey)
                       (completion_order (BATCH_SIZE consts) sched entries))\<rparr>)"
proof -
  from assms(3) obtain header more where rows: "rows = header # more"
    by (cases rows) auto
  then have "go_index rows 0 = Inr header" by (simp add: go_index_def)
  with assms rows show ?thesis
    by (simp add: ProcessExcel_def Let_def)
qed

lemma cell_value_distinct:
  "distinct (map fst ws) \<Longrightarrow> (k, v) \<in> set ws \<Longrightarrow> cell_value ws k = Some v"
  by (simp add: cell_value_def rev_map[symmetric])

lemma fetch_entry_row: "ResultRow (fetch_entry service secretKey e) = Row e"
  by (simp add: fetch_entry_def split: sum.splits)

lemma fetch_entry_name:
  "UserName (fetch_entry service secretKey e) =
     (case FetchUserName service (UserID e) secretKey of
        Inl err \<Rightarrow> placeholder (UserID e)
      | Inr name \<Rightarrow> name)"
  by (simp add: fetch_entry_def split: sum.splits)

text \<open>
  When the results applied are those of the entries, each once and in any order, the cell
  of every entry holds the result of that entry.
\<close>

lemma result_cells:
  assumes ents: "collect_entries col rows = Inr entries"
    and perm: "mset results = image_mset (fetch_entry service secretKey) (mset entries)"
    and ws: "ws = ((c, 1), ''User Name'') # map (result_write c) results"
    and e: "e \<in> set entries"
  shows "cell_value ws (c, Row e) = Some (UserName (fetch_entry service secretKey e))"
proof -
  have rowfst: "map fst ws = (c, 1) # map (\<lambda>r. (c, ResultRow r)) results"
    by (simp add: ws result_write_def comp_def)
  have "mset (map ResultRow results) = image_mset ResultRow (mset results)"
    by simp
  also have "\<dots> = image_mset Row (mset entries)"
    by (simp add: perm multiset.map_comp comp_def fetch_entry_row)
  finally have rows_eq: "mset (map ResultRow results) = mset (map Row entries)"
    by simp
  then have d: "distinct (map ResultRow results)"
    using collect_entries_rows(1)[OF ents] by (metis mset_eq_imp_distinct_iff)
  have seteq: "set (map ResultRow results) = set (map Row entries)"
    using rows_eq by (rule mset_eq_setD)
  have gt: "\<forall>r \<in> set results. 1 < ResultRow r"
  proof
    fix r
    assume "r \<in> set results"
    then have "ResultRow r \<in> set (map ResultRow results)" by simp
    then have "ResultRow r \<in> set (map Row entries)" by (simp only: seteq)
    then obtain e' where "e' \<in> set entries" and "Row e' = ResultRow r" by auto
    with collect_entries_rows(2)[OF ents] show "1 < ResultRow r" by metis
  qed
  have "distinct (map (\<lambda>r. (c, ResultRow r)) results)"
    using d by (simp add: distinct_map inj_on_def)
  moreover have "(c, 1) \<notin> set (map (\<lambda>r. (c, ResultRow r)) results)"
    using gt by auto
  ultimately have dist: "distinct (map fst ws)" by (simp add: rowfst)
  have "fetch_entry service secretKey e \<in># mset results"
    using e by (simp add: perm)
  then have "fetch_entry service secretKey e \<in> set results" by simp
  then have "((c, Row e), UserName (fetch_entry service secretKey e)) \<in> set ws"
    by (force simp: ws result_write_def fetch_entry_row)
  with dist show ?thesis by (rule cell_value_distinct)
qed

section \<open>Properties of the pool of \<open>ProcessExcel\<close>\<close>

lemma size_remove: "x \<in># M \<Longrightarrow> size (M - {#x#}) = size M - 1 \<and> 0 < size M"
  by (metis size_Suc_Diff1 zero_less_Suc diff_Suc_1)

text \<open>
  Every token in \<open>sem\<close> is held by the main goroutine between its send and the \<open>go\<close>
  statement, or by a goroutine that has not yet received from \<open>sem\<close>.
\<close>

lemma excel_pool_step_inv:
  assumes "excel_pool_step n service secretKey a s = Some s'"
    and "tokens_held s = sem s" and "sem s \<le> n"
  shows "tokens_held s' = sem s' \<and> sem s' \<le> n"
proof (cases a)
  case Acquire
  with assms show ?thesis
    by (auto simp: tokens_held_def split: list.splits if_splits)
next
  case Spawn
  with assms show ?thesis
    by (auto simp: tokens_held_def split: main_pc.splits)
next
  case (Call e)
  with assms have "e \<in># started s" by (simp split: if_splits)
  from size_remove [OF this] Call assms show ?thesis
    by (auto simp: tokens_held_def split: if_splits)
next
  case (Return e)
  with assms have "e \<in># fetching s" by (simp split: if_splits)
  from size_remove [OF this] Return assms show ?thesis
    by (auto simp: tokens_held_def split: if_splits)
next
  case (Send r)
  with assms have "r \<in># sending s" by (simp split: if_splits)
  from size_remove [OF this] Send assms show ?thesis
    by (auto simp: tokens_held_def split: if_splits)
next
  case Release
  with assms show ?thesis
    by (auto simp: tokens_held_def split: if_splits main_pc.splits)
next
  case Receive
  with assms show ?thesis
    by (auto simp: tokens_held_def split: list.splits if_splits)
qed

lemma excel_pool_run_inv:
  "excel_pool_run n service secretKey as s = Some s' \<Longrightarrow>
   tokens_held s = sem s \<Longrightarrow> sem s \<le> n \<Longrightarrow>
   tokens_held s' = sem s' \<and> sem s' \<le> n"
proof (induction as arbitrary: s)
  case Nil
  then show ?case by simp
next
  case (Cons a as)
  from Cons.prems(1) obtain s1 where
    step: "excel_pool_step n service secretKey a s = Some s1"
    and rest: "excel_pool_run n service secretKey as s1 = Some s'"
    by (auto split: option.splits)
  from excel_pool_step_inv [OF step Cons.prems(2,3)]
  show ?case using Cons.IH [OF rest] by blast
qed

text \<open>No action loses or duplicates a result, and every action is one of the seven of an entry.\<close>

lemma excel_pool_step_due:
  assumes "excel_pool_step n service secretKey a s = Some s'"
  shows "results_due service secretKey s' = results_due service secretKey s"
proof (cases a)
  case Acquire
  with assms show ?thesis
    by (auto simp: results_due_def split: list.splits if_splits)
next
  case Spawn
  with assms show ?thesis
    by (auto simp: results_due_def split: main_pc.splits)
next
  case (Call e)
  with assms have "e \<in># started s" by (simp split: if_splits)
  then obtain M where "started s = add_mset e M" by (meson multi_member_split)
  with Call assms show ?thesis
    by (auto simp: results_due_def split: if_splits)
next
  case (Return e)
  with assms have "e \<in># fetching s" by (simp split: if_splits)
  then obtain M where "fetching s = add_mset e M" by (meson multi_member_split)
  with Return assms show ?thesis
    by (auto simp: results_due_def split: if_splits)
next
  case (Send r)
  with assms have "r \<in># sending s" by (simp split: if_splits)
  then obtain M where "sending s = add_mset r M" by (meson multi_member_split)
  with Send assms show ?thesis
    by (auto simp: results_due_def split: if_splits)
next
  case Release
  with assms show ?thesis
    by (auto simp: results_due_def split: if_splits)
next
  case Receive
  with assms show ?thesis
    by (auto simp: results_due_def split: list.splits if_splits)
qed

lemma excel_pool_step_left:
  assumes "excel_pool_step n service secretKey a s = Some s'"
  shows "steps_left s = Suc (steps_left s')"
proof (cases a)
  case Acquire
  with assms show ?thesis
    by (auto simp: steps_left_def split: list.splits if_splits)
next
  case Spawn
  with assms show ?thesis
    by (auto simp: steps_left_def split: main_pc.splits)
next
  case (Call e)
  with assms have "e \<in># started s" by (simp split: if_splits)
  from size_remove [OF this] Call assms show ?thesis
    by (auto simp: steps_left_def split: if_splits)
next
  case (Return e)
  with assms have "e \<in># fetching s" by (simp split: if_splits)
  from size_remove [OF this] Return assms show ?thesis
    by (auto simp: steps_left_def split: if_splits)
next
  case (Send r)
  with assms have "r \<in># sending s" by (simp split: if_splits)
  from size_remove [OF this] Send assms show ?thesis
    by (auto simp: steps_left_def split: if_splits)
next
  case Release
  with assms show ?thesis
    by (auto simp: steps_left_def split: if_splits)
next
  case Receive
  with assms show ?thesis
    by (auto simp: steps_left_def split: list.splits if_splits)
qed

lemma excel_pool_run_due:
  "excel_pool_run n service secretKey as s = Some s' \<Longrightarrow>
   results_due service secretKey s' = results_due service secretKey s
   \<and> steps_left s = length as + steps_left s'"
proof (induction as arbitrary: s)
  case Nil
  then show ?case by simp
next
  case (Cons a as)
  from Cons.prems obtain s1 where
    step: "excel_pool_step n service secretKey a s = Some s1"
    and rest: "excel_pool_run n service secretKey as s1 = Some s'"
    by (auto split: option.splits)
  from excel_pool_step_due [OF step] excel_pool_step_left [OF step] Cons.IH [OF rest]
  show ?case by simp
qed

lemma steps_left_final: "excel_pool_final s \<longleftrightarrow> steps_left s = 0"
  by (auto simp: excel_pool_final_def steps_left_def split: main_pc.splits)

lemma excel_pool_progress:
  assumes n: "0 < n" and inv: "tokens_held s = sem s" "sem s \<le> n"
    and nf: "\<not> excel_pool_final s"
  shows "\<exists>a s'. excel_pool_step n service secretKey a s = Some s'"
proof (cases "main_at s")
  case (AtGo e)
  then have "excel_pool_step n service secretKey Spawn s \<noteq> None" by simp
  then show ?thesis by blast
next
  case AtSend
  show ?thesis
  proof (cases "started s = {#}")
    case False
    then obtain e where "e \<in># started s" by (meson multiset_nonemptyE)
    then have "excel_pool_step n service secretKey (Call e) s \<noteq> None" by simp
    then show ?thesis by blast
  next
    case st: True
    show ?thesis
    proof (cases "fetching s = {#}")
      case False
      then obtain e where "e \<in># fetching s" by (meson multiset_nonemptyE)
      then have "excel_pool_step n service secretKey (Return e) s \<noteq> None" by simp
      then show ?thesis by blast
    next
      case fe: True
      show ?thesis
      proof (cases "sending s = {#}")
        case False
        then obtain r where "r \<in># sending s" by (meson multiset_nonemptyE)
        then have "excel_pool_step n service secretKey (Send r) s \<noteq> None" by simp
        then show ?thesis by blast
      next
        case se: True
        show ?thesis
        proof (cases "releasing s = 0")
          case False
          with inv AtSend have "0 < sem s" by (simp add: tokens_held_def)
          with False have "excel_pool_step n service secretKey Release s \<noteq> None" by simp
          then show ?thesis by blast
        next
          case re: True
          with inv AtSend st fe se have sem0: "sem s = 0" by (simp add: tokens_held_def)
          show ?thesis
          proof (cases "pending s")
            case (Cons e es)
            with AtSend sem0 n have "excel_pool_step n service secretKey Acquire s \<noteq> None"
              by simp
            then show ?thesis by blast
          next
            case Nil
            with nf AtSend st fe se re obtain r rs where "results_chan s = r # rs"
              by (cases "results_chan s") (auto simp: excel_pool_final_def)
            with Nil AtSend have "excel_pool_step n service secretKey Receive s \<noteq> None"
              by simp
            then show ?thesis by blast
          qed
        qed
      qed
    qed
  qed
qed

section \<open>Failed fetches and the count of results\<close>

text \<open>
  Claim C7. When the fetch of an entry returns an error (the request cannot be built, the
  transport fails, the status is not 200 or the body is malformed), the cell of that row
  in the new column holds the placeholder \<open>"Unknown User (<identifier>)"\<close>. The fetch
  errors never become an error of \<open>ProcessExcel\<close>: it returns success unless saving the
  output file fails. Every other entry is processed all the same: the cell of its row
  holds its own result. Step by step: whatever the schedule, once the pool has drained
  the results applied fill the cells in the same way.
\<close>

theorem ProcessExcel_fetch_error_placeholder:
  assumes opened: "open_file env filePath = Sheet rows"
    and ents: "collect_entries (USERIDs_COLOUMN consts) rows = Inr entries"
    and batch: "0 < BATCH_SIZE consts"
    and e: "e \<in> set entries"
    and failed: "FetchUserName service (UserID e) secretKey = Inl err"
  shows "(\<exists>ws. ProcessExcel consts env service sched filePath secretKey =
            (if save_fails env (updated_path filePath) then Inl SaveError
             else Inr \<lparr>out_path = updated_path filePath, writes = ws\<rparr>)
          \<and> cell_value ws (length (hd rows) + 1, Row e) = Some (placeholder (UserID e))
          \<and> (\<forall>e' \<in> set entries.
                cell_value ws (length (hd rows) + 1, Row e') =
                  Some (case FetchUserName service (UserID e') secretKey of
                          Inl err' \<Rightarrow> placeholder (UserID e')
                        | Inr name \<Rightarrow> name)))
       \<and> (excel_pool_run (BATCH_SIZE consts) service secretKey schedule (excel_pool_init entries)
            = Some s \<and> excel_pool_final s \<longrightarrow>
            cell_value (((length (hd rows) + 1, 1), ''User Name'') #
                         map (result_write (length (hd rows) + 1)) (applied s))
              (length (hd rows) + 1, Row e) = Some (placeholder (UserID e))
          \<and> (\<forall>e' \<in> set entries.
                cell_value (((length (hd rows) + 1, 1), ''User Name'') #
                             map (result_write (length (hd rows) + 1)) (applied s))
                  (length (hd rows) + 1, Row e') =
                  Some (case FetchUserName service (UserID e') secretKey of
                          Inl err' \<Rightarrow> placeholder (UserID e')
                        | Inr name \<Rightarrow> name)))"
proof (intro conjI impI)
  define c where "c = length (hd rows) + 1"
  define ws where "ws = ((c, 1), ''User Name'') #
     map (result_write c) (map (fetch_entry service secretKey)
       (completion_order (BATCH_SIZE consts) sched entries))"
  from e have "entries \<noteq> []" by auto
  with ents have "rows \<noteq> []" by (rule collect_entries_nonempty)
  from ProcessExcel_char [OF opened ents this batch]
  have run: "ProcessExcel consts env service sched filePath secretKey =
      (if save_fails env (updated_path filePath) then Inl SaveError
       else Inr \<lparr>out_path = updated_path filePath, writes = ws\<rparr>)"
    unfolding ws_def c_def .
  have "mset (completion_order (BATCH_SIZE consts) sched entries) = mset entries"
    using batch by (rule completion_order_mset)
  then have perm: "mset (map (fetch_entry service secretKey)
        (completion_order (BATCH_SIZE consts) sched entries)) =
      image_mset (fetch_entry service secretKey) (mset entries)"
    by (metis mset_map)
  have cells: "cell_value ws (c, Row e') = Some (UserName (fetch_entry service secretKey e'))"
    if "e' \<in> set entries" for e'
    using ents perm ws_def that by (rule result_cells)
  have "cell_value ws (c, Row e) = Some (placeholder (UserID e))"
    using cells[OF e] failed by (simp add: fetch_entry_name)
  with run cells show "\<exists>ws. ProcessExcel consts env service sched filePath secretKey =
            (if save_fails env (updated_path filePath) then Inl SaveError
             else Inr \<lparr>out_path = updated_path filePath, writes = ws\<rparr>)
          \<and> cell_value ws (length (hd rows) + 1, Row e) = Some (placeholder (UserID e))
          \<and> (\<forall>e' \<in> set entries.
                cell_value ws (length (hd rows) + 1, Row e') =
                  Some (case FetchUserName service (UserID e') secretKey of
                          Inl err' \<Rightarrow> placeholder (UserID e')
                        | Inr name \<Rightarrow> name))"
    unfolding c_def by (auto simp: fetch_entry_name)
next
  let ?c = "length (hd rows) + 1"
  let ?n = "BATCH_SIZE consts"
  assume a: "excel_pool_run ?n service secretKey schedule (excel_pool_init entries) = Some s
      \<and> excel_pool_final s"
  then have run: "excel_pool_run ?n service secretKey schedule (excel_pool_init entries) = Some s"
    and fin: "excel_pool_final s" by simp_all
  from excel_pool_run_due [OF run] fin
  have perm: "mset (applied s) = image_mset (fetch_entry service secretKey) (mset entries)"
    by (simp add: results_due_def excel_pool_init_def excel_pool_final_def)
  have cells: "cell_value (((?c, 1), ''User Name'') # map (result_write ?c) (applied s)) (?c, Row e')
      = Some (UserName (fetch_entry service secretKey e'))"
    if "e' \<in> set entries" for e'
    using ents perm refl that by (rule result_cells)
  from cells[OF e] failed
  show "cell_value (((?c, 1), ''User Name'') # map (result_write ?c) (applied s)) (?c, Row e)
      = Some (placeholder (UserID e))"
    by (simp add: fetch_entry_name)
  from cells
  show "\<forall>e' \<in> set entries.
      cell_value (((?c, 1), ''User Name'') # map (result_write ?c) (applied s)) (?c, Row e') =
        Some (case FetchUserName service (UserID e') secretKey of
                Inl err' \<Rightarrow> placeholder (UserID e')
              | Inr name \<Rightarrow> name)"
    by (simp add: fetch_entry_name)
qed

text \<open>The example: its entries, its fetches, and its schedule run to the end.\<close>

lemma example_entries:
  "collect_entries (USERIDs_COLOUMN single_file_constants) example_sheet =
     Inr [\<lparr>Row = 2, UserID = ''user_a''\<rparr>, \<lparr>Row = 3, UserID = ''user_b''\<rparr>, \<lparr>Row = 4, UserID = ''  ''\<rparr>]"
  by (simp add: collect_entries_def example_sheet_def single_file_constants_def go_index_def
      stringTrim_ident)

lemma example_fetches:
  "FetchUserName example_service ''user_a'' ''sk_test'' = Inl (BadStatus 404)"
  "FetchUserName example_service ''user_b'' ''sk_test'' = Inr ''Ann Lee''"
  "FetchUserName example_service ''  '' ''sk_test'' = Inl TransportError"
  by (simp_all add: FetchUserName_def example_service_def StatusOK_def ann_lee_def fullName_def
      stringTrim_ident)

lemma example_schedule_run:
  "excel_pool_run (BATCH_SIZE single_file_constants) example_service ''sk_test''
     example_schedule
     (excel_pool_init [\<lparr>Row = 2, UserID = ''user_a''\<rparr>, \<lparr>Row = 3, UserID = ''user_b''\<rparr>,
                       \<lparr>Row = 4, UserID = ''  ''\<rparr>]) =
   Some \<lparr>pending = [], main_at = AtSend, sem = 0, started = {#}, fetching = {#},
          sending = {#}, releasing = 0, results_chan = [],
          applied = [\<lparr>ResultRow = 4, UserName = ''Unknown User (  )''\<rparr>,
                     \<lparr>ResultRow = 2, UserName = ''Unknown User (user_a)''\<rparr>,
                     \<lparr>ResultRow = 3, UserName = ''Ann Lee''\<rparr>]\<rparr>"
  by (simp add: example_schedule_def excel_pool_init_def single_file_constants_def
      fetch_entry_def example_fetches placeholder_def)

lemma example_updated_path: "updated_path ''users.xlsx'' = ''users_updated.xlsx''"
  by (simp add: updated_path_def filepath_Ext_def)

theorem ProcessExcel_fetch_error_placeholder_witness:
  "open_file example_env ''users.xlsx'' = Sheet example_sheet
   \<and> collect_entries (USERIDs_COLOUMN single_file_constants) example_sheet =
       Inr [\<lparr>Row = 2, UserID = ''user_a''\<rparr>, \<lparr>Row = 3, UserID = ''user_b''\<rparr>, \<lparr>Row = 4, UserID = ''  ''\<rparr>]
   \<and> 0 < BATCH_SIZE single_file_constants
   \<and> FetchUserName example_service ''user_a'' ''sk_test'' = Inl (BadStatus 404)
   \<and> (\<exists>ws. ProcessExcel single_file_constants example_env example_service [1] ''users.xlsx'' ''sk_test'' =
             Inr \<lparr>out_path = ''users_updated.xlsx'', writes = ws\<rparr>
         \<and> cell_value ws (6, 2) = Some ''Unknown User (user_a)''
         \<and> cell_value ws (6, 3) = Some ''Ann Lee''
         \<and> cell_value ws (6, 4) = Some ''Unknown User (  )'')
   \<and> excel_pool_run (BATCH_SIZE single_file_constants) example_service ''sk_test''
        example_schedule
        (excel_pool_init [\<lparr>Row = 2, UserID = ''user_a''\<rparr>, \<lparr>Row = 3, UserID = ''user_b''\<rparr>,
                          \<lparr>Row = 4, UserID = ''  ''\<rparr>]) =
       Some \<lparr>pending = [], main_at = AtSend, sem = 0, started = {#}, fetching = {#},
              sending = {#}, releasing = 0, results_chan = [],
              applied = [\<lparr>ResultRow = 4, UserName = ''Unknown User (  )''\<rparr>,
                         \<lparr>ResultRow = 2, UserName = ''Unknown User (user_a)''\<rparr>,
                         \<lparr>ResultRow = 3, UserName = ''Ann Lee''\<rparr>]\<rparr>
   \<and> cell_value
        (((6, 1), ''User Name'') #
         map (result_write 6)
           [\<lparr>ResultRow = 4, UserName = ''Unknown User (  )''\<rparr>,
            \<lparr>ResultRow = 2, UserName = ''Unknown User (user_a)''\<rparr>,
            \<lparr>ResultRow = 3, UserName = ''Ann Lee''\<rparr>])
        (6, 2) = Some ''Unknown User (user_a)''"
proof -
  let ?final = "\<lparr>pending = [], main_at = AtSend, sem = 0, started = {#}, fetching = {#},
         sending = {#}, releasing = 0, results_chan = [],
         applied = [\<lparr>ResultRow = 4, UserName = ''Unknown User (  )''\<rparr>,
                    \<lparr>ResultRow = 2, UserName = ''Unknown User (user_a)''\<rparr>,
                    \<lparr>ResultRow = 3, UserName = ''Ann Lee''\<rparr>]\<rparr>"
  have h1: "open_file example_env ''users.xlsx'' = Sheet example_sheet"
    by (simp add: example_env_def)
  have h3: "0 < BATCH_SIZE single_file_constants"
    by (simp add: single_file_constants_def)
  have h4: "\<lparr>Row = 2, UserID = ''user_a''\<rparr> \<in> set [\<lparr>Row = 2, UserID = ''user_a''\<rparr>, \<lparr>Row = 3, UserID = ''user_b''\<rparr>, \<lparr>Row = 4, UserID = ''  ''\<rparr>]"
    by simp
  have h5: "FetchUserName example_service (UserID \<lparr>Row = 2, UserID = ''user_a''\<rparr>) ''sk_test'' = Inl (BadStatus 404)"
    by (simp add: example_fetches)
  have fin: "excel_pool_final ?final"
    by (simp add: excel_pool_final_def)
  note T = ProcessExcel_fetch_error_placeholder [OF h1 example_entries h3 h4 h5,
      of "[1]" example_schedule ?final]
  from T have fn: "\<exists>ws. ProcessExcel single_file_constants example_env example_service [1] ''users.xlsx'' ''sk_test'' =
             Inr \<lparr>out_path = ''users_updated.xlsx'', writes = ws\<rparr>
         \<and> cell_value ws (6, 2) = Some ''Unknown User (user_a)''
         \<and> cell_value ws (6, 3) = Some ''Ann Lee''
         \<and> cell_value ws (6, 4) = Some ''Unknown User (  )''"
    by (simp add: example_updated_path example_env_def example_sheet_def placeholder_def
        example_fetches eval_nat_numeral)
  from T example_schedule_run fin have op: "cell_value
        (((6, 1), ''User Name'') #
         map (result_write 6)
           [\<lparr>ResultRow = 4, UserName = ''Unknown User (  )''\<rparr>,
            \<lparr>ResultRow = 2, UserName = ''Unknown User (user_a)''\<rparr>,
            \<lparr>ResultRow = 3, UserName = ''Ann Lee''\<rparr>])
        (6, 2) = Some ''Unknown User (user_a)''"
    by (simp add: example_sheet_def placeholder_def eval_nat_numeral)
  from h1 example_entries h3 example_fetches(1) fn example_schedule_run op
  show ?thesis by blast
qed

text \<open>
  Claim C8. In every run of \<open>ProcessExcel\<close> that reads a sheet, with a pool of positive
  size, the results that the aggregator applies are the results of the enqueued entries,
  each exactly once, in the order of completion: as many results as entries. Step by
  step: under every schedule the pool performs at most seven actions for each entry; as
  long as it has not drained, some action is enabled; it has drained exactly when all
  these actions are done, and then the results applied are those of the entries, each
  exactly once.
\<close>

theorem ProcessExcel_one_result_per_entry:
  assumes "open_file env filePath = Sheet rows"
    and "collect_entries (USERIDs_COLOUMN consts) rows = Inr entries"
    and "rows \<noteq> []"
    and "0 < BATCH_SIZE consts"
  shows "(\<exists>results.
           mset results = image_mset (fetch_entry service secretKey) (mset entries)
         \<and> length results = length entries
         \<and> ProcessExcel consts env service sched filePath secretKey =
             (if save_fails env (updated_path filePath) then Inl SaveError
              else Inr \<lparr>out_path = updated_path filePath,
                        writes = ((length (hd rows) + 1, 1), ''User Name'') #
                                 map (result_write (length (hd rows) + 1)) results\<rparr>))
       \<and> (excel_pool_run (BATCH_SIZE consts) service secretKey schedule (excel_pool_init entries)
            = Some s \<longrightarrow>
            length schedule \<le> 7 * length entries
          \<and> (excel_pool_final s \<longleftrightarrow> length schedule = 7 * length entries)
          \<and> (excel_pool_final s \<longrightarrow>
                mset (applied s) = image_mset (fetch_entry service secretKey) (mset entries)
              \<and> length (applied s) = length entries)
          \<and> (\<not> excel_pool_final s \<longrightarrow>
                (\<exists>a s'. excel_pool_step (BATCH_SIZE consts) service secretKey a s = Some s')))"
proof (intro conjI impI)
  let ?done = "completion_order (BATCH_SIZE consts) sched entries"
  let ?results = "map (fetch_entry service secretKey) ?done"
  have perm: "mset ?done = mset entries"
    using assms(4) by (rule completion_order_mset)
  then have "mset ?results = image_mset (fetch_entry service secretKey) (mset entries)"
    by (metis mset_map)
  moreover have "length ?results = length entries"
    using perm by (metis length_map size_mset)
  moreover note ProcessExcel_char [OF assms, of service sched secretKey]
  ultimately show "\<exists>results.
           mset results = image_mset (fetch_entry service secretKey) (mset entries)
         \<and> length results = length entries
         \<and> ProcessExcel consts env service sched filePath secretKey =
             (if save_fails env (updated_path filePath) then Inl SaveError
              else Inr \<lparr>out_path = updated_path filePath,
                        writes = ((length (hd rows) + 1, 1), ''User Name'') #
                                 map (result_write (length (hd rows) + 1)) results\<rparr>)"
    by blast
next
  let ?n = "BATCH_SIZE consts"
  let ?init = "excel_pool_init entries"
  assume run: "excel_pool_run ?n service secretKey schedule ?init = Some s"
  from excel_pool_run_due [OF run]
  have due: "results_due service secretKey s = image_mset (fetch_entry service secretKey) (mset entries)"
    and left: "7 * length entries = length schedule + steps_left s"
    by (simp_all add: results_due_def steps_left_def excel_pool_init_def)
  from left show "length schedule \<le> 7 * length entries" by simp
  from left show "excel_pool_final s \<longleftrightarrow> length schedule = 7 * length entries"
    by (auto simp: steps_left_final)
  {
    assume "excel_pool_final s"
    with due show m: "mset (applied s) = image_mset (fetch_entry service secretKey) (mset entries)"
      by (simp add: results_due_def excel_pool_final_def)
    then show "length (applied s) = length entries"
      by (metis size_mset size_image_mset)
  }
  {
    assume nf: "\<not> excel_pool_final s"
    have "tokens_held s = sem s \<and> sem s \<le> ?n"
      using run by (rule excel_pool_run_inv) (simp_all add: excel_pool_init_def tokens_held_def)
    with assms(4) nf
    show "\<exists>a s'. excel_pool_step ?n service secretKey a s = Some s'"
      by (intro excel_pool_progress) simp_all
  }
qed

theorem ProcessExcel_one_result_per_entry_witness:
  "open_file example_env ''users.xlsx'' = Sheet example_sheet
   \<and> example_sheet \<noteq> []
   \<and> 0 < BATCH_SIZE single_file_constants
   \<and> (\<exists>results.
         mset results = {#\<lparr>ResultRow = 2, UserName = ''Unknown User (user_a)''\<rparr>,
                          \<lparr>ResultRow = 3, UserName = ''Ann Lee''\<rparr>,
                          \<lparr>ResultRow = 4, UserName = ''Unknown User (  )''\<rparr>#}
       \<and> length results = 3
       \<and> processExcel example_env example_service [2, 0] ''users.xlsx'' ''sk_test'' =
           Inr \<lparr>out_path = ''users_updated.xlsx'',
                writes = ((6, 1), ''User Name'') # map (result_write 6) results\<rparr>)
   \<and> excel_pool_run (BATCH_SIZE single_file_constants) example_service ''sk_test''
        example_schedule
        (excel_pool_init [\<lparr>Row = 2, UserID = ''user_a''\<rparr>, \<lparr>Row = 3, UserID = ''user_b''\<rparr>,
                          \<lparr>Row = 4, UserID = ''  ''\<rparr>]) =
       Some \<lparr>pending = [], main_at = AtSend, sem = 0, started = {#}, fetching = {#},
              sending = {#}, releasing = 0, results_chan = [],
              applied = [\<lparr>ResultRow = 4, UserName = ''Unknown User (  )''\<rparr>,
                         \<lparr>ResultRow = 2, UserName = ''Unknown User (user_a)''\<rparr>,
                         \<lparr>ResultRow = 3, UserName = ''Ann Lee''\<rparr>]\<rparr>
   \<and> length example_schedule = 7 * 3
   \<and> excel_pool_final
        \<lparr>pending = [], main_at = AtSend, sem = 0, started = {#}, fetching = {#},
         sending = {#}, releasing = 0, results_chan = [],
         applied = [\<lparr>ResultRow = 4, UserName = ''Unknown User (  )''\<rparr>,
                    \<lparr>ResultRow = 2, UserName = ''Unknown User (user_a)''\<rparr>,
                    \<lparr>ResultRow = 3, UserName = ''Ann Lee''\<rparr>]\<rparr>"
proof -
  let ?final = "\<lparr>pending = [], main_at = AtSend, sem = 0, started = {#}, fetching = {#},
         sending = {#}, releasing = 0, results_chan = [],
         applied = [\<lparr>ResultRow = 4, UserName = ''Unknown User (  )''\<rparr>,
                    \<lparr>ResultRow = 2, UserName = ''Unknown User (user_a)''\<rparr>,
                    \<lparr>ResultRow = 3, UserName = ''Ann Lee''\<rparr>]\<rparr>"
  have h1: "open_file example_env ''users.xlsx'' = Sheet example_sheet"
    by (simp add: example_env_def)
  have h2: "example_sheet \<noteq> []"
    by (simp add: example_sheet_def)
  have h3: "0 < BATCH_SIZE single_file_constants"
    by (simp add: single_file_constants_def)
  have len: "length example_schedule = 7 * 3"
    by (simp add: example_schedule_def)
  note T = ProcessExcel_one_result_per_entry [OF h1 example_entries h2 h3,
      of example_service "''sk_test''" "[2, 0]" example_schedule ?final]
  from T have fn: "\<exists>results.
         mset results = {#\<lparr>ResultRow = 2, UserName = ''Unknown User (user_a)''\<rparr>,
                          \<lparr>ResultRow = 3, UserName = ''Ann Lee''\<rparr>,
                          \<lparr>ResultRow = 4, UserName = ''Unknown User (  )''\<rparr>#}
       \<and> length results = 3
       \<and> processExcel example_env example_service [2, 0] ''users.xlsx'' ''sk_test'' =
           Inr \<lparr>out_path = ''users_updated.xlsx'',
                writes = ((6, 1), ''User Name'') # map (result_write 6) results\<rparr>"
    by (simp add: example_updated_path example_env_def example_sheet_def placeholder_def
        processExcel_def fetch_entry_def example_fetches eval_nat_numeral)
  from T example_schedule_run len have "excel_pool_final ?final" by simp
  with h1 h2 h3 fn example_schedule_run len show ?thesis by blast
qed

section \<open>Properties of the migration\<close>

text \<open>
  The example configurations are what \<open>LoadConfig\<close> returns for a file that names the two
  buckets.
\<close>

lemma LoadConfig_example:
  "LoadConfig ascii_lib defaults_001
     (Overrides (\<lambda>c. c\<lparr>GCSBucket := ''src'', S3Bucket := ''dst''\<rparr>)) = Inr example_config_001"
  "LoadConfig ascii_lib defaults_002
     (Overrides (\<lambda>c. c\<lparr>GCSBucket := ''src'', S3Bucket := ''dst''\<rparr>)) = Inr example_config_002"
  by code_simp+

text \<open>
  What the two enumerators compute: the jobs of the candidates that pass the date test, in
  the order of the listing, and the counts.
\<close>

lemma scan_001_char:
  "scan_001 lib config listing st =
     st\<lparr>queue := queue st @ map (job_001 lib)
            (filter (\<lambda>a. is_candidate lib config a \<and> \<not> skip_001 lib config a) (listed_objects listing)),
        filesQueued := filesQueued st + of_nat (length
            (filter (\<lambda>a. is_candidate lib config a \<and> \<not> skip_001 lib config a) (listed_objects listing))),
        skippedByDate := skippedByDate st + of_nat (length
            (filter (\<lambda>a. is_candidate lib config a \<and> skip_001 lib config a) (listed_objects listing))),
        totalProcessed := totalProcessed st + of_nat (length
            (filter (is_candidate lib config) (listed_objects listing)))\<rparr>"
proof (induction listing arbitrary: st)
  case Nil
  then show ?case by simp
next
  case (Cons x rest)
  show ?case
  proof (cases x)
    case ListingError
    then show ?thesis by simp
  next
    case (Object a)
    then show ?thesis
      by (simp add: Cons.IH is_candidate_def skip_001_def job_001_def Let_def split: sum.splits)
  qed
qed

lemma scan_002_char:
  "scan_002 lib config listing st =
     st\<lparr>queue := queue st @ map job_002
            (filter (\<lambda>a. is_candidate lib config a \<and> \<not> skip_002 lib config a) (listed_objects listing)),
        filesQueued := filesQueued st + of_nat (length
            (filter (\<lambda>a. is_candidate lib config a \<and> \<not> skip_002 lib config a) (listed_objects listing))),
        skippedByDate := skippedByDate st + of_nat (length
            (filter (\<lambda>a. is_candidate lib config a \<and> skip_002 lib config a) (listed_objects listing)))\<rparr>"
proof (induction listing arbitrary: st)
  case Nil
  then show ?case by simp
next
  case (Cons x rest)
  show ?case
  proof (cases x)
    case ListingError
    then show ?thesis by simp
  next
    case (Object a)
    then show ?thesis
      by (simp add: Cons.IH is_candidate_def skip_002_def job_002_def Let_def split: sum.splits)
  qed
qed

text \<open>The worker on jobs that the existence check finds at the destination.\<close>

lemma worker_all_exist:
  "\<forall>job \<in> set jobs. fileExistsInS3 w (S3Bucket config) (RelativePath job) \<Longrightarrow>
   worker config jobs (stats, w) =
     (stats\<lparr>totalFiles := totalFiles stats + of_nat (length jobs),
            skippedExisting := skippedExisting stats + of_nat (length jobs)\<rparr>, w)"
  by (induction jobs arbitrary: stats) (simp_all add: ac_simps)

text \<open>The worker touches the four counters of \<open>Stats\<close> only.\<close>

lemma worker_more:
  "Stats.more (fst (worker config jobs (stats, w))) = Stats.more stats"
proof (induction jobs arbitrary: stats w)
  case Nil
  then show ?case by simp
next
  case (Cons job jobs)
  show ?case
    by (simp add: Cons.IH Let_def split: sum.splits prod.splits option.splits)
qed

lemma worker_skippedDate:
  "skippedDate (fst (worker config jobs (stats, w))) = skippedDate stats"
proof (induction jobs arbitrary: stats w)
  case Nil
  then show ?case by simp
next
  case (Cons job jobs)
  show ?case
    by (simp add: Cons.IH Let_def split: sum.splits prod.splits option.splits)
qed

text \<open>
  Twice a positive number of workers below \<open>2 ^ 62\<close> does not wrap around; from \<open>2 ^ 62\<close> on
  it does, and \<open>make\<close> panics.
\<close>

lemma wrap64_id: "- (2 ^ 63) \<le> x \<Longrightarrow> x < 2 ^ 63 \<Longrightarrow> wrap64 x = x"
  by (simp add: wrap64_def)

lemma pool_starts_size:
  "pool_starts m config \<Longrightarrow> wrap64 (MaxWorkers config * 2) = MaxWorkers config * 2"
  by (rule wrap64_id) (simp_all add: pool_starts_def)

lemma main_panics_from_2_62:
  "main_001 m lib (config\<lparr>MaxWorkers := 2 ^ 62\<rparr>) listing w = Inl ChanSizeOutOfRange"
  "main_002 m lib (config\<lparr>MaxWorkers := 2 ^ 62\<rparr>) listing w = Inl ChanSizeOutOfRange"
  by (simp_all add: main_001_def main_002_def wrap64_def)

text \<open>When the pool starts, \<open>main\<close> runs the workers over the queue and reports.\<close>

lemma main_001_starts:
  "pool_starts m config \<Longrightarrow>
   main_001 m lib config listing w =
     (let sc = scan_001 lib config listing scan_init_001 in
      case worker config (queue sc) (stats_init_001, w) of
        (stats, w') \<Rightarrow>
          Inr (\<lparr>scanned = totalProcessed sc,
                skipped_before_cutoff = skippedByDate sc,
                queued_for_copying = filesQueued sc,
                processed = totalFiles stats,
                copied = copiedFiles stats,
                skipped_existing = skippedExisting stats,
                errors = errorFiles stats\<rparr>, w'))"
  using pool_starts_size [of m config]
  by (simp add: main_001_def Let_def pool_starts_def)

lemma main_002_starts:
  "pool_starts m config \<Longrightarrow>
   main_002 m lib config listing w =
     (let sc = scan_002 lib config listing scan_init_002 in
      case worker config (queue sc) (stats_init_002, w) of
        (stats, w') \<Rightarrow>
          Inr (\<lparr>log_skipped_by_date = skippedByDate sc,
                log_queued = filesQueued sc,
                sum_total = totalFiles stats,
                sum_copied = copiedFiles stats,
                sum_skipped_existing = skippedExisting stats,
                sum_skipped_date = skippedDate stats,
                sum_errors = errorFiles stats\<rparr>, w'))"
  using pool_starts_size [of m config]
  by (simp add: main_002_def Let_def pool_starts_def)

lemma main_002_returns:
  "pool_starts m config \<Longrightarrow> \<exists>r w'. main_002 m lib config listing w = Inr (r, w')"
  by (simp add: main_002_starts Let_def split: prod.splits)


text \<open>Every report of the second variant shows 0 for the counter \<open>skippedDate\<close>.\<close>

lemma main_002_skipped:
  assumes run: "main_002 m lib config listing w = Inr (r, w')"
  shows "sum_skipped_date r = 0
    \<and> log_skipped_by_date r = skippedByDate (scan_002 lib config listing scan_init_002)"
proof (cases "0 < MaxWorkers config")
  case True
  let ?sc = "scan_002 lib config listing scan_init_002"
  obtain stats' w'' where wk: "worker config (queue ?sc) (stats_init_002, w) = (stats', w'')"
    by (cases "worker config (queue ?sc) (stats_init_002, w)")
  from run True wk have r: "sum_skipped_date r = skippedDate stats'"
      "log_skipped_by_date r = skippedByDate ?sc"
    by (auto simp: main_002_def Let_def split: if_splits option.splits)
  have "skippedDate stats' = skippedDate stats_init_002"
    using worker_skippedDate [of config "queue ?sc" stats_init_002 w] wk by simp
  with r show ?thesis by (simp add: stats_init_002_def)
next
  case False
  with run show ?thesis
    by (auto simp: main_002_def Let_def stats_init_002_def split: if_splits option.splits)
qed

text \<open>
  Claim C9. In the variant with the counter \<open>skippedDate\<close>, no operation increments it:
  the worker leaves it as it is, so the line "Files skipped (before cutoff date)" of the
  final summary reports 0 in every run, while the number of objects that the date filter
  excluded is held by the local variable \<open>skippedByDate\<close> and logged before the summary.
  When the pool starts the run reaches the summary.
\<close>

theorem skippedDate_never_incremented:
  "skippedDate (fst (worker config jobs (stats, w))) = skippedDate stats
   \<and> (\<forall>r w'. main_002 m lib config listing w = Inr (r, w') \<longrightarrow>
         sum_skipped_date r = 0
       \<and> log_skipped_by_date r = of_nat (length
           (filter (\<lambda>a. is_candidate lib config a \<and> skip_002 lib config a) (listed_objects listing))))
   \<and> (pool_starts m config \<longrightarrow> (\<exists>r w'. main_002 m lib config listing w = Inr (r, w')))"
proof (intro conjI allI impI)
  show "skippedDate (fst (worker config jobs (stats, w))) = skippedDate stats"
    by (rule worker_skippedDate)
next
  fix r w'
  assume run: "main_002 m lib config listing w = Inr (r, w')"
  from main_002_skipped [OF run]
  show "sum_skipped_date r = 0" by simp
  from main_002_skipped [OF run]
  show "log_skipped_by_date r = of_nat (length
           (filter (\<lambda>a. is_candidate lib config a \<and> skip_002 lib config a) (listed_objects listing)))"
    by (simp add: scan_002_char scan_init_002_def)
next
  assume "pool_starts m config"
  then show "\<exists>r w'. main_002 m lib config listing w = Inr (r, w')"
    by (rule main_002_returns)
qed

text \<open>The example machine starts the pools of the example configurations.\<close>

lemma example_pool_starts:
  "pool_starts example_machine example_config_001"
  "pool_starts example_machine example_config_002"
  by (simp_all add: pool_starts_def example_machine_def example_config_001_def
      example_config_002_def defaults_001_def defaults_002_def)

theorem skippedDate_never_incremented_witness:
  "pool_starts example_machine example_config_002
   \<and> skippedDate (fst (worker example_config_002
        (queue (scan_002 ascii_lib example_config_002 example_listing_002 scan_init_002))
        (stats_init_002, full_destination))) = 0
   \<and> (\<exists>r w'. main_002 example_machine ascii_lib example_config_002 example_listing_002
                 full_destination = Inr (r, w')
         \<and> sum_skipped_date r = 0 \<and> log_skipped_by_date r = 2)"
proof -
  note m = example_pool_starts(2)
  have n: "length (filter (\<lambda>a. is_candidate ascii_lib example_config_002 a
              \<and> skip_002 ascii_lib example_config_002 a) (listed_objects example_listing_002)) = 2"
    by code_simp
  note T = skippedDate_never_incremented [of example_config_002
      "queue (scan_002 ascii_lib example_config_002 example_listing_002 scan_init_002)"
      stats_init_002 full_destination example_machine ascii_lib example_listing_002]
  from T have w: "skippedDate (fst (worker example_config_002
        (queue (scan_002 ascii_lib example_config_002 example_listing_002 scan_init_002))
        (stats_init_002, full_destination))) = 0"
    by (simp add: stats_init_002_def)
  from T m obtain r w' where
    run: "main_002 example_machine ascii_lib example_config_002 example_listing_002
        full_destination = Inr (r, w')"
    by blast
  with T have "sum_skipped_date r = 0 \<and> log_skipped_by_date r = 2"
    by (simp add: n)
  with m w run show ?thesis by blast
qed

text \<open>Which jobs are in the queue after the enumeration.\<close>

lemma queue_001_parsable:
  "job \<in> set (queue (scan_001 lib config listing scan_init_001)) \<Longrightarrow>
   \<exists>d. extractDateFromPath_001 lib (GCSPath job) = Inr d \<and> \<not> Before d (CutoffDate config)"
  by (auto simp: scan_001_char scan_init_001_def job_001_def skip_001_def split: sum.splits)

lemma queue_001_member:
  "a \<in> set (listed_objects listing) \<Longrightarrow> is_candidate lib config a \<Longrightarrow>
   extractDateFromPath_001 lib (Name a) = Inr d \<Longrightarrow> \<not> Before d (CutoffDate config) \<Longrightarrow>
   \<lparr>GCSPath = Name a, RelativePath = Name a, CreatedTime = d\<rparr>
     \<in> set (queue (scan_001 lib config listing scan_init_001))"
  by (force simp: scan_001_char scan_init_001_def job_001_def skip_001_def)

lemma job_002_inj: "job_002 a = job_002 b \<Longrightarrow> a = b"
  by (cases a, cases b) (simp add: job_002_def)

lemma queue_002_iff:
  "job \<in> set (queue (scan_002 lib config listing scan_init_002)) \<longleftrightarrow>
   (\<exists>a \<in> set (listed_objects listing).
      is_candidate lib config a \<and> \<not> skip_002 lib config a \<and> job = job_002 a)"
  by (auto simp: scan_002_char scan_init_002_def)

lemma queue_002_member:
  "a \<in> set (listed_objects listing) \<Longrightarrow> is_candidate lib config a \<Longrightarrow>
   job_002 a \<in> set (queue (scan_002 lib config listing scan_init_002)) \<longleftrightarrow> \<not> skip_002 lib config a"
  by (auto simp: queue_002_iff dest: job_002_inj)

lemma queue_002_parsable:
  "job \<in> set (queue (scan_002 lib config listing scan_init_002)) \<Longrightarrow>
   extractDateFromPath_002 lib (GCSPath job) = Inr d \<Longrightarrow> \<not> Before d (CutoffDate config)"
  by (auto simp: queue_002_iff job_002_def skip_002_def)




text \<open>
  Claim C5. For an object that the enumerator reaches and that passes the directory and
  extension filters: when the date of its path equals the cutoff date (or is later) it is
  queued, and when the date is before the cutoff date no job is queued for it. This
  holds in both variants.
\<close>

theorem cutoff_is_inclusive_lower_bound:
  assumes "a \<in> set (listed_objects listing)" and "is_candidate lib config a"
  shows "(extractDateFromPath_001 lib (Name a) = Inr d \<longrightarrow>
            (d = CutoffDate config \<longrightarrow>
               \<lparr>GCSPath = Name a, RelativePath = Name a, CreatedTime = d\<rparr>
                 \<in> set (queue (scan_001 lib config listing scan_init_001)))
          \<and> (CutoffDate config < d \<longrightarrow>
               \<lparr>GCSPath = Name a, RelativePath = Name a, CreatedTime = d\<rparr>
                 \<in> set (queue (scan_001 lib config listing scan_init_001)))
          \<and> (d < CutoffDate config \<longrightarrow>
               (\<forall>job \<in> set (queue (scan_001 lib config listing scan_init_001)).
                  GCSPath job \<noteq> Name a)))
       \<and> (extractDateFromPath_002 lib (Name a) = Inr d' \<longrightarrow>
            (d' = CutoffDate config \<longrightarrow>
               job_002 a \<in> set (queue (scan_002 lib config listing scan_init_002)))
          \<and> (CutoffDate config < d' \<longrightarrow>
               job_002 a \<in> set (queue (scan_002 lib config listing scan_init_002)))
          \<and> (d' < CutoffDate config \<longrightarrow>
               (\<forall>job \<in> set (queue (scan_002 lib config listing scan_init_002)).
                  GCSPath job \<noteq> Name a)))"
proof (intro conjI impI ballI)
  assume "extractDateFromPath_001 lib (Name a) = Inr d" and "d = CutoffDate config"
  with assms show "\<lparr>GCSPath = Name a, RelativePath = Name a, CreatedTime = d\<rparr>
      \<in> set (queue (scan_001 lib config listing scan_init_001))"
    by (intro queue_001_member) (simp_all add: Before_def)
next
  assume "extractDateFromPath_001 lib (Name a) = Inr d" and "CutoffDate config < d"
  with assms show "\<lparr>GCSPath = Name a, RelativePath = Name a, CreatedTime = d\<rparr>
      \<in> set (queue (scan_001 lib config listing scan_init_001))"
    by (intro queue_001_member) (simp_all add: Before_def)
next
  fix job
  assume "extractDateFromPath_001 lib (Name a) = Inr d" and "d < CutoffDate config"
    and "job \<in> set (queue (scan_001 lib config listing scan_init_001))"
  with queue_001_parsable [OF this(3)]
  show "GCSPath job \<noteq> Name a" by (auto simp: Before_def)
next
  assume "extractDateFromPath_002 lib (Name a) = Inr d'" and "d' = CutoffDate config"
  with assms show "job_002 a \<in> set (queue (scan_002 lib config listing scan_init_002))"
    by (simp add: queue_002_member skip_002_def Before_def)
next
  assume "extractDateFromPath_002 lib (Name a) = Inr d'" and "CutoffDate config < d'"
  with assms show "job_002 a \<in> set (queue (scan_002 lib config listing scan_init_002))"
    by (simp add: queue_002_member skip_002_def Before_def)
next
  fix job
  assume "extractDateFromPath_002 lib (Name a) = Inr d'" and "d' < CutoffDate config"
    and "job \<in> set (queue (scan_002 lib config listing scan_init_002))"
  with queue_002_parsable [OF this(3), of d']
  show "GCSPath job \<noteq> Name a" by (auto simp: Before_def)
qed

theorem cutoff_is_inclusive_lower_bound_witness:
  "\<lparr>Name = ''port1/2025-09-07/a.mp4'', Created = 1759276800\<rparr> \<in> set (listed_objects example_listing_001)
   \<and> is_candidate ascii_lib example_config_001 \<lparr>Name = ''port1/2025-09-07/a.mp4'', Created = 1759276800\<rparr>
   \<and> extractDateFromPath_001 ascii_lib ''port1/2025-09-07/a.mp4'' = Inr 1757203200
   \<and> 1757203200 = CutoffDate example_config_001
   \<and> \<lparr>GCSPath = ''port1/2025-09-07/a.mp4'', RelativePath = ''port1/2025-09-07/a.mp4'',
        CreatedTime = 1757203200\<rparr>
        \<in> set (queue (scan_001 ascii_lib example_config_001 example_listing_001 scan_init_001))
   \<and> \<lparr>Name = ''port1/2025-09-06/b.mp4'', Created = 1759276800\<rparr> \<in> set (listed_objects example_listing_001)
   \<and> is_candidate ascii_lib example_config_001 \<lparr>Name = ''port1/2025-09-06/b.mp4'', Created = 1759276800\<rparr>
   \<and> extractDateFromPath_001 ascii_lib ''port1/2025-09-06/b.mp4'' = Inr (1757203200 - 86400)
   \<and> 1757203200 - 86400 < CutoffDate example_config_001
   \<and> ''port1/2025-09-06/b.mp4'' \<notin>
       GCSPath ` set (queue (scan_001 ascii_lib example_config_001 example_listing_001 scan_init_001))
   \<and> \<lparr>Name = ''2025-09-07/a.mp4'', Created = 1754006400\<rparr> \<in> set (listed_objects example_listing_002)
   \<and> is_candidate ascii_lib example_config_002 \<lparr>Name = ''2025-09-07/a.mp4'', Created = 1754006400\<rparr>
   \<and> extractDateFromPath_002 ascii_lib ''2025-09-07/a.mp4'' = Inr 1757203200
   \<and> 1757203200 = CutoffDate example_config_002
   \<and> job_002 \<lparr>Name = ''2025-09-07/a.mp4'', Created = 1754006400\<rparr>
        \<in> set (queue (scan_002 ascii_lib example_config_002 example_listing_002 scan_init_002))
   \<and> \<lparr>Name = ''2025-09-06/b.mp4'', Created = 1759276800\<rparr> \<in> set (listed_objects example_listing_002)
   \<and> is_candidate ascii_lib example_config_002 \<lparr>Name = ''2025-09-06/b.mp4'', Created = 1759276800\<rparr>
   \<and> extractDateFromPath_002 ascii_lib ''2025-09-06/b.mp4'' = Inr (1757203200 - 86400)
   \<and> 1757203200 - 86400 < CutoffDate example_config_002
   \<and> ''2025-09-06/b.mp4'' \<notin>
       GCSPath ` set (queue (scan_002 ascii_lib example_config_002 example_listing_002 scan_init_002))"
proof -
  let ?a1 = "\<lparr>Name = ''port1/2025-09-07/a.mp4'', Created = 1759276800\<rparr>"
  let ?b1 = "\<lparr>Name = ''port1/2025-09-06/b.mp4'', Created = 1759276800\<rparr>"
  let ?a2 = "\<lparr>Name = ''2025-09-07/a.mp4'', Created = 1754006400\<rparr>"
  let ?b2 = "\<lparr>Name = ''2025-09-06/b.mp4'', Created = 1759276800\<rparr>"
  have la1: "?a1 \<in> set (listed_objects example_listing_001)"
    and lb1: "?b1 \<in> set (listed_objects example_listing_001)"
    by (simp_all add: example_listing_001_def)
  have la2: "?a2 \<in> set (listed_objects example_listing_002)"
    and lb2: "?b2 \<in> set (listed_objects example_listing_002)"
    by (simp_all add: example_listing_002_def)
  have ca1: "is_candidate ascii_lib example_config_001 ?a1" by code_simp
  have cb1: "is_candidate ascii_lib example_config_001 ?b1" by code_simp
  have ca2: "is_candidate ascii_lib example_config_002 ?a2" by code_simp
  have cb2: "is_candidate ascii_lib example_config_002 ?b2" by code_simp
  have ea1: "extractDateFromPath_001 ascii_lib ''port1/2025-09-07/a.mp4'' = Inr 1757203200"
    by code_simp
  have eb1: "extractDateFromPath_001 ascii_lib ''port1/2025-09-06/b.mp4'' = Inr (1757203200 - 86400)"
    by code_simp
  have ea2: "extractDateFromPath_002 ascii_lib ''2025-09-07/a.mp4'' = Inr 1757203200"
    by code_simp
  have eb2: "extractDateFromPath_002 ascii_lib ''2025-09-06/b.mp4'' = Inr (1757203200 - 86400)"
    by code_simp
  have c1: "CutoffDate example_config_001 = 1757203200"
    by (simp add: example_config_001_def)
  have c2: "CutoffDate example_config_002 = 1757203200"
    by (simp add: example_config_002_def)
  note A1 = cutoff_is_inclusive_lower_bound [OF la1 ca1, of 1757203200 0]
  note B1 = cutoff_is_inclusive_lower_bound [OF lb1 cb1, of "1757203200 - 86400" 0]
  note A2 = cutoff_is_inclusive_lower_bound [OF la2 ca2, of 0 1757203200]
  note B2 = cutoff_is_inclusive_lower_bound [OF lb2 cb2, of 0 "1757203200 - 86400"]
  from A1 ea1 c1 have qa1: "\<lparr>GCSPath = ''port1/2025-09-07/a.mp4'',
        RelativePath = ''port1/2025-09-07/a.mp4'', CreatedTime = 1757203200\<rparr>
        \<in> set (queue (scan_001 ascii_lib example_config_001 example_listing_001 scan_init_001))"
    by simp
  from B1 eb1 c1 have qb1: "\<forall>job \<in> set (queue (scan_001 ascii_lib example_config_001 example_listing_001 scan_init_001)).
         GCSPath job \<noteq> ''port1/2025-09-06/b.mp4''"
    by simp
  from A2 ea2 c2 have qa2: "job_002 ?a2
        \<in> set (queue (scan_002 ascii_lib example_config_002 example_listing_002 scan_init_002))"
    by simp
  from B2 eb2 c2 have qb2: "\<forall>job \<in> set (queue (scan_002 ascii_lib example_config_002 example_listing_002 scan_init_002)).
         GCSPath job \<noteq> ''2025-09-06/b.mp4''"
    by simp
  show ?thesis
    using la1 lb1 la2 lb2 ca1 cb1 ca2 cb2 ea1 eb1 ea2 eb2 qa1 qb1 qa2 qb2
    by (auto simp: c1 c2)
qed

text \<open>The count of queued files is the length of the queue.\<close>

lemma scan_001_filesQueued:
  "filesQueued (scan_001 lib config listing scan_init_001) =
     of_nat (length (queue (scan_001 lib config listing scan_init_001)))"
  by (simp add: scan_001_char scan_init_001_def)

lemma scan_002_filesQueued:
  "filesQueued (scan_002 lib config listing scan_init_002) =
     of_nat (length (queue (scan_002 lib config listing scan_init_002)))"
  by (simp add: scan_002_char scan_init_002_def)

text \<open>
  The pool of workers on jobs that the existence check finds at the destination: under
  every schedule the stores stay as they are, and the counters of processed and of
  skipped files have gone up by the number of jobs finished.
\<close>

lemma worker_one_exists:
  "fileExistsInS3 w (S3Bucket config) (RelativePath job) \<Longrightarrow>
   worker config [job] (stats, w) =
     (stats\<lparr>totalFiles := totalFiles stats + 1, skippedExisting := skippedExisting stats + 1\<rparr>, w)"
  by simp

lemma migration_pool_step_skips:
  assumes step: "migration_pool_step config a t = Some t'"
    and ex: "\<forall>job \<in> set jobs. fileExistsInS3 w (S3Bucket config) (RelativePath job)"
    and known: "jobs_known jobs t"
    and rem: "remote t = w"
    and le: "jobs_left t \<le> length jobs"
    and st: "pool_stats t =
      stats\<lparr>totalFiles := totalFiles stats + of_nat (length jobs - jobs_left t),
            skippedExisting := skippedExisting stats + of_nat (length jobs - jobs_left t)\<rparr>"
  shows "jobs_known jobs t' \<and> remote t' = w \<and> jobs_left t' \<le> length jobs
    \<and> pool_stats t' =
      stats\<lparr>totalFiles := totalFiles stats + of_nat (length jobs - jobs_left t'),
            skippedExisting := skippedExisting stats + of_nat (length jobs - jobs_left t')\<rparr>"
proof -
  have same: ?thesis
    if "jobs_known jobs t'" and "jobs_left t' = jobs_left t"
      and "pool_stats t' = pool_stats t" and "remote t' = remote t"
    using that rem le st by simp
  show ?thesis
  proof (cases a)
    case Start
    with step have t': "t' = t\<lparr>next_worker := next_worker t + 1, workers := add_mset Idle (workers t)\<rparr>"
      by (simp split: if_splits)
    show ?thesis
      using known by (intro same) (auto simp: t' jobs_known_def jobs_left_def in_flight_def)
  next
    case Enqueue
    with step obtain job rest where ts: "to_send t = job # rest"
      and t': "t' = t\<lparr>to_send := rest, jobs_chan := jobs_chan t @ [job]\<rparr>"
      by (auto split: list.splits if_splits)
    show ?thesis
      using known ts by (intro same) (auto simp: t' jobs_known_def jobs_left_def in_flight_def)
  next
    case Close
    with step have t': "t' = t\<lparr>jobs_closed := True\<rparr>"
      by (simp split: if_splits)
    show ?thesis
      using known by (intro same) (auto simp: t' jobs_known_def jobs_left_def in_flight_def)
  next
    case Take
    with step obtain job rest where c: "jobs_chan t = job # rest" and idle: "Idle \<in># workers t"
      and t': "t' = t\<lparr>workers := add_mset (Busy job) (workers t - {#Idle#}), jobs_chan := rest\<rparr>"
      by (auto split: list.splits if_splits)
    from idle obtain M where w: "workers t = add_mset Idle M"
      by (meson multi_member_split)
    show ?thesis
      using known c by (intro same) (auto simp: t' w jobs_known_def jobs_left_def in_flight_def)
  next
    case (Finish job)
    with step have busy: "Busy job \<in># workers t" by (simp split: if_splits)
    then obtain M where w: "workers t = add_mset (Busy job) M"
      by (meson multi_member_split)
    from busy known have "job \<in> set jobs" by (simp add: jobs_known_def)
    with ex have "fileExistsInS3 w (S3Bucket config) (RelativePath job)" by simp
    then have one: "worker config [job] (pool_stats t, remote t) =
        ((pool_stats t)\<lparr>totalFiles := totalFiles (pool_stats t) + 1,
           skippedExisting := skippedExisting (pool_stats t) + 1\<rparr>, w)"
      using rem by (simp only: worker_one_exists)
    from step Finish busy have t': "t' = t\<lparr>workers := add_mset Idle (workers t - {#Busy job#}),
        pool_stats := (pool_stats t)\<lparr>totalFiles := totalFiles (pool_stats t) + 1,
           skippedExisting := skippedExisting (pool_stats t) + 1\<rparr>, remote := w\<rparr>"
      by (simp add: one del: worker.simps)
    have left: "jobs_left t = Suc (jobs_left t')"
      by (simp add: jobs_left_def in_flight_def t' w)
    with le have k: "length jobs - jobs_left t' = Suc (length jobs - jobs_left t)"
      and le': "jobs_left t' \<le> length jobs" by simp_all
    have kn: "jobs_known jobs t'"
      using known by (auto simp: jobs_known_def t' w)
    have r: "remote t' = w" by (simp add: t')
    have "pool_stats t' = (pool_stats t)\<lparr>totalFiles := totalFiles (pool_stats t) + 1,
           skippedExisting := skippedExisting (pool_stats t) + 1\<rparr>"
      by (simp add: t')
    also have "\<dots> = stats\<lparr>totalFiles := totalFiles stats + of_nat (length jobs - jobs_left t'),
            skippedExisting := skippedExisting stats + of_nat (length jobs - jobs_left t')\<rparr>"
      by (simp add: st k ac_simps)
    finally show ?thesis using kn r le' by simp
  next
    case Leave
    with step have idle: "Idle \<in># workers t" and t': "t' = t\<lparr>workers := workers t - {#Idle#}\<rparr>"
      by (auto split: if_splits)
    from idle obtain M where w: "workers t = add_mset Idle M"
      by (meson multi_member_split)
    show ?thesis
      using known by (intro same) (auto simp: t' w jobs_known_def jobs_left_def in_flight_def)
  qed
qed

lemma migration_pool_run_skips:
  assumes "migration_pool_run config as t = Some t'"
    and "\<forall>job \<in> set jobs. fileExistsInS3 w (S3Bucket config) (RelativePath job)"
    and "jobs_known jobs t"
    and "remote t = w"
    and "jobs_left t \<le> length jobs"
    and "pool_stats t =
      stats\<lparr>totalFiles := totalFiles stats + of_nat (length jobs - jobs_left t),
            skippedExisting := skippedExisting stats + of_nat (length jobs - jobs_left t)\<rparr>"
  shows "remote t' = w \<and> jobs_left t' \<le> length jobs
    \<and> pool_stats t' =
      stats\<lparr>totalFiles := totalFiles stats + of_nat (length jobs - jobs_left t'),
            skippedExisting := skippedExisting stats + of_nat (length jobs - jobs_left t')\<rparr>"
  using assms
proof (induction as arbitrary: t)
  case Nil
  then show ?case by simp
next
  case (Cons a as)
  from Cons.prems(1) obtain t1 where
    step: "migration_pool_step config a t = Some t1"
    and rest: "migration_pool_run config as t1 = Some t'"
    by (auto split: option.splits)
  from migration_pool_step_skips [OF step Cons.prems(2-6)]
  show ?case using Cons.IH [OF rest Cons.prems(2)] by blast
qed

lemma migration_pool_all_exist:
  assumes "migration_pool_run config schedule (migration_pool_init jobs stats w) = Some t"
    and "\<forall>job \<in> set jobs. fileExistsInS3 w (S3Bucket config) (RelativePath job)"
  shows "remote t = w \<and> jobs_left t \<le> length jobs
    \<and> pool_stats t =
      stats\<lparr>totalFiles := totalFiles stats + of_nat (length jobs - jobs_left t),
            skippedExisting := skippedExisting stats + of_nat (length jobs - jobs_left t)\<rparr>"
  using assms
  by (rule migration_pool_run_skips)
    (simp_all add: migration_pool_init_def jobs_known_def jobs_left_def in_flight_def)

text \<open>
  Claim C6, as amended. For work items whose key the existence check finds at the
  destination, the worker calls neither the reader nor the uploader, so the remote side is
  unchanged and no byte is copied; for each item it adds one to the counter of processed
  files and one to the counter of skipped files, and changes no other counter. Hence a run
  against a destination where the check finds every queued key copies nothing and
  reports as many skipped files as files queued. In the pool of workers, under every
  schedule, the stores and the counters of copied files and of errors stay as they are,
  and whenever no worker is busy the counters of processed and of skipped files have gone
  up by the number of jobs finished.
\<close>

theorem existing_keys_are_skipped:
  "((\<forall>job \<in> set jobs. fileExistsInS3 w (S3Bucket config) (RelativePath job)) \<longrightarrow>
      worker config jobs (stats, w) =
        (stats\<lparr>totalFiles := totalFiles stats + of_nat (length jobs),
               skippedExisting := skippedExisting stats + of_nat (length jobs)\<rparr>, w))
   \<and> (pool_starts m config
        \<and> (\<forall>job \<in> set (queue (scan_001 lib config listing scan_init_001)).
              fileExistsInS3 w (S3Bucket config) (RelativePath job)) \<longrightarrow>
      (\<exists>r. main_001 m lib config listing w = Inr (r, w)
           \<and> copied r = 0 \<and> errors r = 0
           \<and> skipped_existing r = queued_for_copying r
           \<and> processed r = queued_for_copying r))
   \<and> (pool_starts m config
        \<and> (\<forall>job \<in> set (queue (scan_002 lib config listing scan_init_002)).
              fileExistsInS3 w (S3Bucket config) (RelativePath job)) \<longrightarrow>
      (\<exists>r. main_002 m lib config listing w = Inr (r, w)
           \<and> sum_copied r = 0 \<and> sum_errors r = 0
           \<and> sum_skipped_existing r = log_queued r
           \<and> sum_total r = log_queued r))
   \<and> ((\<forall>job \<in> set jobs. fileExistsInS3 w (S3Bucket config) (RelativePath job))
        \<and> migration_pool_run config schedule (migration_pool_init jobs stats w) = Some t \<longrightarrow>
      remote t = w
      \<and> copiedFiles (pool_stats t) = copiedFiles stats
      \<and> errorFiles (pool_stats t) = errorFiles stats
      \<and> (in_flight t = 0 \<longrightarrow>
           pool_stats t =
             stats\<lparr>totalFiles := totalFiles stats + of_nat (length jobs - jobs_left t),
                   skippedExisting := skippedExisting stats + of_nat (length jobs - jobs_left t)\<rparr>))"
proof (intro conjI impI)
  assume a: "(\<forall>job \<in> set jobs. fileExistsInS3 w (S3Bucket config) (RelativePath job))
        \<and> migration_pool_run config schedule (migration_pool_init jobs stats w) = Some t"
  then have run: "migration_pool_run config schedule (migration_pool_init jobs stats w) = Some t"
    and ex: "\<forall>job \<in> set jobs. fileExistsInS3 w (S3Bucket config) (RelativePath job)"
    by simp_all
  from run ex have inv: "remote t = w \<and> jobs_left t \<le> length jobs
    \<and> pool_stats t =
      stats\<lparr>totalFiles := totalFiles stats + of_nat (length jobs - jobs_left t),
            skippedExisting := skippedExisting stats + of_nat (length jobs - jobs_left t)\<rparr>"
    by (rule migration_pool_all_exist)
  from inv show "remote t = w" by simp
  from inv show "copiedFiles (pool_stats t) = copiedFiles stats" by simp
  from inv show "errorFiles (pool_stats t) = errorFiles stats" by simp
  from inv show "pool_stats t =
          stats\<lparr>totalFiles := totalFiles stats + of_nat (length jobs - jobs_left t),
                skippedExisting := skippedExisting stats + of_nat (length jobs - jobs_left t)\<rparr>"
    by simp
next
  assume "\<forall>job \<in> set jobs. fileExistsInS3 w (S3Bucket config) (RelativePath job)"
  then show "worker config jobs (stats, w) =
        (stats\<lparr>totalFiles := totalFiles stats + of_nat (length jobs),
               skippedExisting := skippedExisting stats + of_nat (length jobs)\<rparr>, w)"
    by (rule worker_all_exist)
next
  let ?sc = "scan_001 lib config listing scan_init_001"
  assume a: "pool_starts m config
        \<and> (\<forall>job \<in> set (queue ?sc). fileExistsInS3 w (S3Bucket config) (RelativePath job))"
  then have "worker config (queue ?sc) (stats_init_001, w) =
      (stats_init_001\<lparr>totalFiles := totalFiles stats_init_001 + of_nat (length (queue ?sc)),
         skippedExisting := skippedExisting stats_init_001 + of_nat (length (queue ?sc))\<rparr>, w)"
    by (intro worker_all_exist) simp
  with a show "\<exists>r. main_001 m lib config listing w = Inr (r, w)
           \<and> copied r = 0 \<and> errors r = 0
           \<and> skipped_existing r = queued_for_copying r
           \<and> processed r = queued_for_copying r"
    by (simp add: main_001_starts Let_def stats_init_001_def scan_001_filesQueued)
next
  let ?sc = "scan_002 lib config listing scan_init_002"
  assume a: "pool_starts m config
        \<and> (\<forall>job \<in> set (queue ?sc). fileExistsInS3 w (S3Bucket config) (RelativePath job))"
  then have "worker config (queue ?sc) (stats_init_002, w) =
      (stats_init_002\<lparr>totalFiles := totalFiles stats_init_002 + of_nat (length (queue ?sc)),
         skippedExisting := skippedExisting stats_init_002 + of_nat (length (queue ?sc))\<rparr>, w)"
    by (intro worker_all_exist) simp
  with a show "\<exists>r. main_002 m lib config listing w = Inr (r, w)
           \<and> sum_copied r = 0 \<and> sum_errors r = 0
           \<and> sum_skipped_existing r = log_queued r
           \<and> sum_total r = log_queued r"
    by (simp add: main_002_starts Let_def stats_init_002_def scan_002_filesQueued)
qed

text \<open>
  The claim as stated fails twice. The skipped-existing counter is not the only one that
  the worker increments for an existing key: the counter of processed files goes up too.
  And a key that exists at the destination is copied again when \<open>HeadObject\<close> fails, since
  the check reads every error as absence.
\<close>

theorem existing_key_counts_as_processed:
  "fileExistsInS3 full_destination ''dst'' ''misc/c.mp4''
   \<and> totalFiles (fst (worker example_config_002
        [\<lparr>GCSPath = ''misc/c.mp4'', RelativePath = ''misc/c.mp4'', CreatedTime = 1759276800\<rparr>]
        (stats_init_001, full_destination))) = 1
   \<and> s3 failing_head (''dst'', ''misc/c.mp4'') = Some [1, 2, 3]
   \<and> skippedExisting (fst (worker example_config_002
        [\<lparr>GCSPath = ''misc/c.mp4'', RelativePath = ''misc/c.mp4'', CreatedTime = 1759276800\<rparr>]
        (stats_init_001, failing_head))) = 0
   \<and> bytes_copied (snd (worker example_config_002
        [\<lparr>GCSPath = ''misc/c.mp4'', RelativePath = ''misc/c.mp4'', CreatedTime = 1759276800\<rparr>]
        (stats_init_001, failing_head))) = 3"
  by code_simp

text \<open>The queues of the two example listings.\<close>

lemma example_queue_001:
  "queue (scan_001 ascii_lib example_config_001 example_listing_001 scan_init_001) =
     [\<lparr>GCSPath = ''port1/2025-09-07/a.mp4'', RelativePath = ''port1/2025-09-07/a.mp4'',
       CreatedTime = 1757203200\<rparr>]"
  by code_simp

lemma example_queue_002:
  "queue (scan_002 ascii_lib example_config_002 example_listing_002 scan_init_002) =
     [\<lparr>GCSPath = ''2025-09-07/a.mp4'', RelativePath = ''2025-09-07/a.mp4'', CreatedTime = 1754006400\<rparr>,
      \<lparr>GCSPath = ''misc/c.mp4'', RelativePath = ''misc/c.mp4'', CreatedTime = 1759276800\<rparr>]"
  by code_simp

lemma full_destination_exists:
  "fileExistsInS3 full_destination ''dst'' key"
  by (simp add: fileExistsInS3_def HeadObject_def full_destination_def)

theorem existing_keys_are_skipped_witness:
  "pool_starts example_machine example_config_001
   \<and> list_all (\<lambda>job. fileExistsInS3 full_destination (S3Bucket example_config_001) (RelativePath job))
         (queue (scan_001 ascii_lib example_config_001 example_listing_001 scan_init_001))
   \<and> worker example_config_001
        (queue (scan_001 ascii_lib example_config_001 example_listing_001 scan_init_001))
        (stats_init_001, full_destination) =
       (\<lparr>totalFiles = 1, copiedFiles = 0, skippedExisting = 1, errorFiles = 0\<rparr>, full_destination)
   \<and> (\<exists>r. main_001 example_machine ascii_lib example_config_001 example_listing_001
              full_destination = Inr (r, full_destination)
          \<and> copied r = 0 \<and> errors r = 0
          \<and> skipped_existing r = queued_for_copying r \<and> processed r = queued_for_copying r)
   \<and> pool_starts example_machine example_config_002
   \<and> list_all (\<lambda>job. fileExistsInS3 full_destination (S3Bucket example_config_002) (RelativePath job))
         (queue (scan_002 ascii_lib example_config_002 example_listing_002 scan_init_002))
   \<and> (\<exists>r. main_002 example_machine ascii_lib example_config_002 example_listing_002
              full_destination = Inr (r, full_destination)
          \<and> sum_copied r = 0 \<and> sum_errors r = 0
          \<and> sum_skipped_existing r = log_queued r \<and> sum_total r = log_queued r)
   \<and> bytes_copied full_destination = 0
   \<and> migration_pool_run (example_config_002\<lparr>MaxWorkers := 1\<rparr>)
        [Start, Enqueue, Take,
         Finish \<lparr>GCSPath = ''misc/c.mp4'', RelativePath = ''misc/c.mp4'', CreatedTime = 1759276800\<rparr>,
         Close, Leave]
        (migration_pool_init
           [\<lparr>GCSPath = ''misc/c.mp4'', RelativePath = ''misc/c.mp4'', CreatedTime = 1759276800\<rparr>]
           stats_init_001 full_destination) =
       Some \<lparr>next_worker = 2, workers = {#}, to_send = [], jobs_chan = [], jobs_closed = True,
              pool_stats = \<lparr>totalFiles = 1, copiedFiles = 0, skippedExisting = 1, errorFiles = 0\<rparr>,
              remote = full_destination\<rparr>
   \<and> in_flight
        \<lparr>next_worker = 2, workers = {#}, to_send = [], jobs_chan = [], jobs_closed = True,
         pool_stats = \<lparr>totalFiles = 1, copiedFiles = 0, skippedExisting = 1, errorFiles = 0\<rparr>,
         remote = full_destination\<rparr> = 0
   \<and> \<lparr>totalFiles = 1, copiedFiles = 0, skippedExisting = 1, errorFiles = 0\<rparr> =
       stats_init_001\<lparr>totalFiles := totalFiles stats_init_001 + 1,
                      skippedExisting := skippedExisting stats_init_001 + 1\<rparr>"
proof -
  let ?job = "\<lparr>GCSPath = ''misc/c.mp4'', RelativePath = ''misc/c.mp4'', CreatedTime = 1759276800\<rparr>"
  let ?config = "example_config_002\<lparr>MaxWorkers := 1\<rparr>"
  let ?schedule = "[Start, Enqueue, Take, Finish ?job, Close, Leave]"
  let ?t = "\<lparr>next_worker = 2, workers = {#}, to_send = [], jobs_chan = [], jobs_closed = True,
      pool_stats = \<lparr>totalFiles = 1, copiedFiles = 0, skippedExisting = 1, errorFiles = 0\<rparr>,
      remote = full_destination\<rparr>"
  have b3: "S3Bucket ?config = ''dst''"
    by (simp add: example_config_002_def)
  have pool: "migration_pool_run ?config ?schedule
      (migration_pool_init [?job] stats_init_001 full_destination) = Some ?t"
    by (simp add: migration_pool_init_def b3 full_destination_exists stats_init_001_def)
  have idle: "in_flight ?t = 0"
    by (simp add: in_flight_def)
  have e3: "\<forall>job \<in> set [?job]. fileExistsInS3 full_destination (S3Bucket ?config) (RelativePath job)"
    by (simp add: b3 full_destination_exists)
  note m1 = example_pool_starts(1)
  note m2 = example_pool_starts(2)
  have b1: "S3Bucket example_config_001 = ''dst''"
    by (simp add: example_config_001_def)
  have b2: "S3Bucket example_config_002 = ''dst''"
    by (simp add: example_config_002_def)
  have e1: "\<forall>job \<in> set (queue (scan_001 ascii_lib example_config_001 example_listing_001 scan_init_001)).
         fileExistsInS3 full_destination (S3Bucket example_config_001) (RelativePath job)"
    by (simp add: b1 full_destination_exists)
  have e2: "\<forall>job \<in> set (queue (scan_002 ascii_lib example_config_002 example_listing_002 scan_init_002)).
         fileExistsInS3 full_destination (S3Bucket example_config_002) (RelativePath job)"
    by (simp add: b2 full_destination_exists)
  have z: "bytes_copied full_destination = 0"
    by (simp add: bytes_copied_def full_destination_def)
  note T1 = existing_keys_are_skipped [where
      jobs = "queue (scan_001 ascii_lib example_config_001 example_listing_001 scan_init_001)"
      and w = full_destination and config = example_config_001 and stats = stats_init_001
      and m = example_machine and lib = ascii_lib and listing = example_listing_001]
  note T2 = existing_keys_are_skipped [where
      jobs = "queue (scan_002 ascii_lib example_config_002 example_listing_002 scan_init_002)"
      and w = full_destination and config = example_config_002 and stats = stats_init_002
      and m = example_machine and lib = ascii_lib and listing = example_listing_002]
  note T3 = existing_keys_are_skipped [where jobs = "[?job]" and w = full_destination
      and config = ?config and stats = stats_init_001 and schedule = ?schedule and t = ?t]
  from T1 e1 have w1: "worker example_config_001
        (queue (scan_001 ascii_lib example_config_001 example_listing_001 scan_init_001))
        (stats_init_001, full_destination) =
       (\<lparr>totalFiles = 1, copiedFiles = 0, skippedExisting = 1, errorFiles = 0\<rparr>, full_destination)"
    by (simp add: example_queue_001 stats_init_001_def)
  from T1 m1 e1 have r1: "\<exists>r. main_001 example_machine ascii_lib example_config_001
              example_listing_001 full_destination = Inr (r, full_destination)
          \<and> copied r = 0 \<and> errors r = 0
          \<and> skipped_existing r = queued_for_copying r \<and> processed r = queued_for_copying r"
    by blast
  from T2 m2 e2 have r2: "\<exists>r. main_002 example_machine ascii_lib example_config_002
              example_listing_002 full_destination = Inr (r, full_destination)
          \<and> sum_copied r = 0 \<and> sum_errors r = 0
          \<and> sum_skipped_existing r = log_queued r \<and> sum_total r = log_queued r"
    by blast
  from T3 e3 pool idle have "pool_stats ?t =
      stats_init_001\<lparr>totalFiles := totalFiles stats_init_001 + of_nat (length [?job] - jobs_left ?t),
        skippedExisting := skippedExisting stats_init_001 + of_nat (length [?job] - jobs_left ?t)\<rparr>"
    by blast
  then have st: "\<lparr>totalFiles = 1, copiedFiles = 0, skippedExisting = 1, errorFiles = 0\<rparr> =
       stats_init_001\<lparr>totalFiles := totalFiles stats_init_001 + 1,
                      skippedExisting := skippedExisting stats_init_001 + 1\<rparr>"
    by (simp add: jobs_left_def in_flight_def)
  from m1 e1 w1 r1 m2 e2 r2 z pool idle st show ?thesis
    unfolding list_all_iff by blast
qed

section \<open>The bound on the operations in flight\<close>

text \<open>There are never more workers than the loop of \<open>main\<close> has started.\<close>

lemma migration_pool_step_inv:
  assumes "migration_pool_step config a s = Some s'"
    and "int (size (workers s)) + 1 \<le> next_worker s"
    and "next_worker s \<le> max (MaxWorkers config) 0 + 1"
  shows "int (size (workers s')) + 1 \<le> next_worker s' \<and> next_worker s' \<le> max (MaxWorkers config) 0 + 1"
proof (cases a)
  case Start
  with assms show ?thesis by (auto split: if_splits)
next
  case Enqueue
  with assms show ?thesis by (auto split: list.splits if_splits)
next
  case Close
  with assms show ?thesis by (auto split: if_splits)
next
  case Take
  with assms have "Idle \<in># workers s" by (simp split: list.splits if_splits)
  from size_remove [OF this] Take assms show ?thesis
    by (auto split: list.splits if_splits)
next
  case (Finish job)
  with assms have "Busy job \<in># workers s" by (simp split: if_splits)
  from size_remove [OF this] Finish assms show ?thesis
    by (auto split: if_splits prod.splits)
next
  case Leave
  with assms have "Idle \<in># workers s" by (simp split: if_splits)
  from size_remove [OF this] Leave assms show ?thesis
    by (auto split: if_splits)
qed

lemma migration_pool_run_inv:
  "migration_pool_run config as s = Some s' \<Longrightarrow>
   int (size (workers s)) + 1 \<le> next_worker s \<Longrightarrow>
   next_worker s \<le> max (MaxWorkers config) 0 + 1 \<Longrightarrow>
   int (size (workers s')) + 1 \<le> next_worker s' \<and> next_worker s' \<le> max (MaxWorkers config) 0 + 1"
proof (induction as arbitrary: s)
  case Nil
  then show ?case by simp
next
  case (Cons a as)
  from Cons.prems(1) obtain s1 where
    step: "migration_pool_step config a s = Some s1"
    and rest: "migration_pool_run config as s1 = Some s'"
    by (auto split: option.splits)
  from migration_pool_step_inv [OF step Cons.prems(2,3)]
  show ?case using Cons.IH [OF rest] by blast
qed

lemma in_flight_le: "in_flight s \<le> size (workers s)"
  by (simp add: in_flight_def)

text \<open>
  Claim C10. In every state that the pool of \<open>ProcessExcel\<close> reaches under any schedule,
  with a semaphore of capacity \<open>n\<close>, at most \<open>n\<close> goroutines are inside \<open>FetchUserName\<close>.
  In every state that the pool of the migration reaches under any schedule, with a
  positive \<open>MaxWorkers\<close>, at most \<open>MaxWorkers\<close> workers are processing a job.
\<close>

theorem pools_bound_in_flight:
  "(excel_pool_run n service secretKey schedule (excel_pool_init entries) = Some s \<longrightarrow>
      size (fetching s) \<le> n)
   \<and> (0 < MaxWorkers config
        \<and> migration_pool_run config schedule' (migration_pool_init jobs stats w) = Some t \<longrightarrow>
      int (in_flight t) \<le> MaxWorkers config)"
proof (intro conjI impI)
  assume "excel_pool_run n service secretKey schedule (excel_pool_init entries) = Some s"
  then have "tokens_held s = sem s \<and> sem s \<le> n"
    by (rule excel_pool_run_inv) (simp_all add: excel_pool_init_def tokens_held_def)
  then show "size (fetching s) \<le> n" by (simp add: tokens_held_def)
next
  assume a: "0 < MaxWorkers config
        \<and> migration_pool_run config schedule' (migration_pool_init jobs stats w) = Some t"
  then have "migration_pool_run config schedule' (migration_pool_init jobs stats w) = Some t"
    by simp
  then have "int (size (workers t)) + 1 \<le> next_worker t
      \<and> next_worker t \<le> max (MaxWorkers config) 0 + 1"
    by (rule migration_pool_run_inv) (simp_all add: migration_pool_init_def)
  with a in_flight_le [of t] show "int (in_flight t) \<le> MaxWorkers config"
    by simp
qed

theorem pools_bound_in_flight_witness:
  "excel_pool_run 2 example_service ''sk_test''
      [Acquire, Spawn, Acquire, Spawn, Call \<lparr>Row = 2, UserID = ''user_a''\<rparr>,
       Call \<lparr>Row = 3, UserID = ''user_b''\<rparr>]
      (excel_pool_init [\<lparr>Row = 2, UserID = ''user_a''\<rparr>, \<lparr>Row = 3, UserID = ''user_b''\<rparr>,
                        \<lparr>Row = 4, UserID = ''  ''\<rparr>]) =
    Some \<lparr>pending = [\<lparr>Row = 4, UserID = ''  ''\<rparr>], main_at = AtSend, sem = 2, started = {#},
       fetching = {#\<lparr>Row = 3, UserID = ''user_b''\<rparr>, \<lparr>Row = 2, UserID = ''user_a''\<rparr>#},
       sending = {#}, releasing = 0, results_chan = [], applied = []\<rparr>
   \<and> size (fetching
        \<lparr>pending = [\<lparr>Row = 4, UserID = ''  ''\<rparr>], main_at = AtSend, sem = 2, started = {#},
         fetching = {#\<lparr>Row = 3, UserID = ''user_b''\<rparr>, \<lparr>Row = 2, UserID = ''user_a''\<rparr>#},
         sending = {#}, releasing = 0, results_chan = [], applied = []\<rparr>) \<le> 2
   \<and> excel_pool_run 2 example_service ''sk_test'' [Acquire, Spawn, Acquire, Spawn, Acquire]
      (excel_pool_init [\<lparr>Row = 2, UserID = ''user_a''\<rparr>, \<lparr>Row = 3, UserID = ''user_b''\<rparr>,
                        \<lparr>Row = 4, UserID = ''  ''\<rparr>]) = None
   \<and> 0 < MaxWorkers (example_config_002\<lparr>MaxWorkers := 1\<rparr>)
   \<and> migration_pool_run (example_config_002\<lparr>MaxWorkers := 1\<rparr>) [Start, Enqueue, Take]
      (migration_pool_init [job_002 \<lparr>Name = ''misc/c.mp4'', Created = 1759276800\<rparr>]
         stats_init_002 full_destination) =
    Some \<lparr>next_worker = 2, workers = {#Busy (job_002 \<lparr>Name = ''misc/c.mp4'', Created = 1759276800\<rparr>)#},
       to_send = [], jobs_chan = [], jobs_closed = False,
       pool_stats = stats_init_002, remote = full_destination\<rparr>
   \<and> int (in_flight
        \<lparr>next_worker = 2, workers = {#Busy (job_002 \<lparr>Name = ''misc/c.mp4'', Created = 1759276800\<rparr>)#},
         to_send = [], jobs_chan = [], jobs_closed = False,
         pool_stats = stats_init_002, remote = full_destination\<rparr>)
       \<le> MaxWorkers (example_config_002\<lparr>MaxWorkers := 1\<rparr>)"
proof -
  let ?e1 = "\<lparr>Row = 2, UserID = ''user_a''\<rparr>"
  let ?e2 = "\<lparr>Row = 3, UserID = ''user_b''\<rparr>"
  let ?e3 = "\<lparr>Row = 4, UserID = ''  ''\<rparr>"
  let ?s = "\<lparr>pending = [?e3], main_at = AtSend, sem = 2, started = {#}, fetching = {#?e2, ?e1#},
      sending = {#}, releasing = 0, results_chan = [], applied = []\<rparr>"
  have r1: "excel_pool_run 2 example_service ''sk_test''
      [Acquire, Spawn, Acquire, Spawn, Call ?e1, Call ?e2] (excel_pool_init [?e1, ?e2, ?e3]) = Some ?s"
    by (simp add: excel_pool_init_def numeral_2_eq_2)
  have r1': "excel_pool_run 2 example_service ''sk_test'' [Acquire, Spawn, Acquire, Spawn, Acquire]
      (excel_pool_init [?e1, ?e2, ?e3]) = None"
    by (simp add: excel_pool_init_def numeral_2_eq_2)
  let ?config = "example_config_002\<lparr>MaxWorkers := 1\<rparr>"
  let ?job = "job_002 \<lparr>Name = ''misc/c.mp4'', Created = 1759276800\<rparr>"
  let ?t = "\<lparr>next_worker = 2, workers = {#Busy ?job#}, to_send = [], jobs_chan = [],
      jobs_closed = False, pool_stats = stats_init_002, remote = full_destination\<rparr>"
  have m: "0 < MaxWorkers ?config" by simp
  have r2: "migration_pool_run ?config [Start, Enqueue, Take]
      (migration_pool_init [?job] stats_init_002 full_destination) = Some ?t"
    by (simp add: migration_pool_init_def)
  from pools_bound_in_flight [of 2 example_service "''sk_test''"
      "[Acquire, Spawn, Acquire, Spawn, Call ?e1, Call ?e2]" "[?e1, ?e2, ?e3]" ?s ?config
      "[Start, Enqueue, Take]" "[?job]" stats_init_002 full_destination ?t] r1 r1' r2 m
  show ?thesis by blast
qed

end
